theory Spec2Isabelle
  imports Complex_Main "HOL-Library.AList"
begin

section \<open>Python string primitives\<close>

text \<open>
  Strings are lists of characters with the code points 0 to 255. Among them the
  whitespace characters, for \<^verbatim>\<open>str.isspace\<close>, \<^verbatim>\<open>str.strip\<close>, \<^verbatim>\<open>str.split\<close>
  and the regular expression class \<^verbatim>\<open>\s\<close> alike, are tab, line feed, vertical
  tab, form feed, carriage return, the four separators 0x1C..0x1F, the space,
  the next-line character 0x85 and the no-break space 0xA0.
\<close>

definition nl :: char where
  "nl = CHR 0x0A"

definition is_space :: "char \<Rightarrow> bool" where
  "is_space c \<longleftrightarrow> c \<in> set [CHR 0x09, CHR 0x0A, CHR 0x0B, CHR 0x0C, CHR 0x0D,
                              CHR 0x1C, CHR 0x1D, CHR 0x1E, CHR 0x1F, CHR 0x20,
                              CHR 0x85, CHR 0xA0]"

text \<open>\<^verbatim>\<open>s.strip()\<close>\<close>

definition strip :: "string \<Rightarrow> string" where
  "strip s = rev (dropWhile is_space (rev (dropWhile is_space s)))"

text \<open>\<^verbatim>\<open>s.split()\<close>: the maximal runs of non-whitespace characters.\<close>

fun split_ws :: "string \<Rightarrow> string \<Rightarrow> string list" where
  "split_ws cur [] = (if cur = [] then [] else [cur])"
| "split_ws cur (c # cs) =
     (if is_space c then (if cur = [] then split_ws [] cs else cur # split_ws [] cs)
      else split_ws (cur @ [c]) cs)"

definition split_words :: "string \<Rightarrow> string list" where
  "split_words s = split_ws [] s"

text \<open>\<^verbatim>\<open>s.split('. ')\<close>: the separator is searched from the left, occurrences do not overlap.\<close>

fun split_dot_space :: "string \<Rightarrow> string \<Rightarrow> string list" where
  "split_dot_space cur [] = [cur]"
| "split_dot_space cur [c] = [cur @ [c]]"
| "split_dot_space cur (c # d # cs) =
     (if c = CHR ''.'' \<and> d = CHR '' '' then cur # split_dot_space [] cs
      else split_dot_space (cur @ [c]) (d # cs))"

text \<open>\<^verbatim>\<open>'. ' in s\<close>: the separator occurs in the string.\<close>

fun has_dot_space :: "string \<Rightarrow> bool" where
  "has_dot_space [] = False"
| "has_dot_space [c] = False"
| "has_dot_space (c # d # cs) = ((c = CHR ''.'' \<and> d = CHR '' '') \<or> has_dot_space (d # cs))"

text \<open>\<^verbatim>\<open>sep.join(xs)\<close>\<close>

fun join :: "string \<Rightarrow> string list \<Rightarrow> string" where
  "join sep [] = []"
| "join sep [x] = x"
| "join sep (x # y # ys) = x @ sep @ join sep (y # ys)"

text \<open>\<^verbatim>\<open>s[a:b]\<close> for non-negative bounds, and \<^verbatim>\<open>xs[:k]\<close> for any integer \<open>k\<close>.\<close>

definition slice :: "'a list \<Rightarrow> nat \<Rightarrow> nat \<Rightarrow> 'a list" where
  "slice xs a b = take (b - a) (drop a xs)"

definition py_take :: "int \<Rightarrow> 'a list \<Rightarrow> 'a list" where
  "py_take k xs = (if 0 \<le> k then take (nat k) xs else take (length xs - nat (- k)) xs)"

text \<open>\<^verbatim>\<open>str(n)\<close> for a non-negative integer.\<close>

definition digit_char :: "nat \<Rightarrow> char" where
  "digit_char d = char_of (48 + d)"

function str_of_nat :: "nat \<Rightarrow> string" where
  "str_of_nat n = (if n < 10 then [digit_char n] else str_of_nat (n div 10) @ [digit_char (n mod 10)])"
  by pat_completeness auto
termination
  by (relation "measure id") auto

declare str_of_nat.simps [simp del]

section \<open>Configuration\<close>

text \<open>The fields of \<^verbatim>\<open>Settings\<close> (config.py) that the pipeline reads, with their defaults.\<close>

record settings =
  section_small_threshold :: int
  chunk_max_tokens :: int
  max_sections_per_page :: int
  top_k_retrieval :: nat
  similarity_threshold :: real

definition default_settings :: settings where
  "default_settings = \<lparr>section_small_threshold = 400, chunk_max_tokens = 512,
                        max_sections_per_page = 30, top_k_retrieval = 5,
                        similarity_threshold = 0.35\<rparr>"

section \<open>Section extractor (services/section\_extractor.py)\<close>

record extracted_section =
  es_section_id :: string
  es_heading :: string
  es_heading_level :: nat
  es_raw_text :: string
  es_start_pos :: nat
  es_end_pos :: nat
  es_token_count :: int

record heading_match =
  h_text :: string
  h_level :: nat
  h_start :: nat
  h_end :: nat

text \<open>
  \<^verbatim>\<open>estimate_tokens\<close>: \<^verbatim>\<open>max(1, int(words * 1.3))\<close>. The double nearest to 1.3 lies
  above 1.3 by less than \<open>10\<^sup>-\<^sup>1\<^sup>6\<close>, so for every word count a text can have the
  truncated product is \<open>13 * words div 10\<close>.
\<close>

definition scale_tokens :: "nat \<Rightarrow> int" where
  "scale_tokens words = int (13 * words div 10)"

definition estimate_tokens :: "string \<Rightarrow> int" where
  "estimate_tokens text =
     (if text = [] then 0 else max 1 (scale_tokens (length (split_words text))))"

text \<open>
  \<^verbatim>\<open>generate_section_id\<close>. The digest function of hashlib is a parameter \<open>md5hex\<close>
  of the model.
\<close>

definition generate_section_id :: "(string \<Rightarrow> string) \<Rightarrow> string \<Rightarrow> string \<Rightarrow> nat \<Rightarrow> string" where
  "generate_section_id md5hex page_url heading index =
     take 12 (md5hex (page_url @ '':section:'' @ str_of_nat index @ '':'' @ heading))"

subsection \<open>The two heading patterns\<close>

text \<open>
  \<^verbatim>\<open>^(#{1,3})\s+(.+)$\<close> with MULTILINE, tried at a line start. The run of hashes has
  to be followed by whitespace, so it is matched whole and must have length 1 to 3.
  The whitespace run is matched greedily; when it reaches the end of the text the
  matcher backtracks to the longest shorter run that leaves a character other
  than a line feed for the second group. The result is the length of group 1,
  group 2 and the length of the whole match.
\<close>

definition match_md_heading :: "string \<Rightarrow> (nat \<times> string \<times> nat) option" where
  "match_md_heading s =
     (let k = length (takeWhile (\<lambda>c. c = CHR ''#'') s);
          r1 = drop k s;
          ws = takeWhile is_space r1;
          w = length ws;
          r2 = drop w r1
      in if k < 1 \<or> 3 < k \<or> w < 1 then None
         else if r2 \<noteq> [] then
           (let g2 = takeWhile (\<lambda>c. c \<noteq> nl) r2 in Some (k, g2, k + w + length g2))
         else
           (case filter (\<lambda>j. ws ! j \<noteq> nl) (rev [1..<w]) of
              [] \<Rightarrow> None
            | j # _ \<Rightarrow>
                (let g2 = takeWhile (\<lambda>c. c \<noteq> nl) (drop j ws)
                 in Some (k, g2, k + j + length g2))))"

text \<open>
  \<^verbatim>\<open>finditer\<close> for the Markdown pattern: \<open>i\<close> is the position of the next
  character, \<open>skip\<close> the number of characters still inside the last match,
  \<open>bol\<close> says whether the position is a line start.
\<close>

fun md_scan :: "nat \<Rightarrow> nat \<Rightarrow> bool \<Rightarrow> string \<Rightarrow> heading_match list" where
  "md_scan i skip bol [] = []"
| "md_scan i skip bol (c # cs) =
     (if 0 < skip then md_scan (i + 1) (skip - 1) (c = nl) cs
      else if bol then
        (case match_md_heading (c # cs) of
           Some (k, g2, len) \<Rightarrow>
             \<lparr>h_text = strip g2, h_level = k, h_start = i, h_end = i + len\<rparr>
               # md_scan (i + 1) (len - 1) (c = nl) cs
         | None \<Rightarrow> md_scan (i + 1) 0 (c = nl) cs)
      else md_scan (i + 1) 0 (c = nl) cs)"

text \<open>
  \<^verbatim>\<open><h([1-3])[^>]*>(.+?)</h\1>\<close> with IGNORECASE and DOTALL. The closing tag is
  searched lazily, at least one character after the opening tag.
\<close>

definition is_h :: "char \<Rightarrow> bool" where
  "is_h c \<longleftrightarrow> c = CHR ''h'' \<or> c = CHR ''H''"

definition level_of_digit :: "char \<Rightarrow> nat option" where
  "level_of_digit c =
     (if c = CHR ''1'' then Some 1 else if c = CHR ''2'' then Some 2
      else if c = CHR ''3'' then Some 3 else None)"

fun is_close :: "char \<Rightarrow> string \<Rightarrow> bool" where
  "is_close d (a # b # c # e # f # _) \<longleftrightarrow>
     a = CHR ''<'' \<and> b = CHR ''/'' \<and> is_h c \<and> e = d \<and> f = CHR ''>''"
| "is_close d _ \<longleftrightarrow> False"

fun find_close :: "char \<Rightarrow> nat \<Rightarrow> string \<Rightarrow> nat option" where
  "find_close d n [] = None"
| "find_close d n (c # cs) = (if is_close d (c # cs) then Some n else find_close d (n + 1) cs)"

fun match_html_heading :: "string \<Rightarrow> (nat \<times> string \<times> nat) option" where
  "match_html_heading (a # b # d # rest) =
     (if a = CHR ''<'' \<and> is_h b then
        (case level_of_digit d of
           None \<Rightarrow> None
         | Some lv \<Rightarrow>
             (let attrs = takeWhile (\<lambda>c. c \<noteq> CHR ''>'') rest;
                  body = drop (length attrs + 1) rest
              in if drop (length attrs) rest = [] then None
                 else (case body of
                         [] \<Rightarrow> None
                       | _ # bs \<Rightarrow>
                           (case find_close d 1 bs of
                              None \<Rightarrow> None
                            | Some n \<Rightarrow> Some (lv, take n body, 3 + length attrs + 1 + n + 5)))))
      else None)"
| "match_html_heading _ = None"

fun html_scan :: "nat \<Rightarrow> nat \<Rightarrow> string \<Rightarrow> heading_match list" where
  "html_scan i skip [] = []"
| "html_scan i skip (c # cs) =
     (if 0 < skip then html_scan (i + 1) (skip - 1) cs
      else (case match_html_heading (c # cs) of
              Some (lv, g2, len) \<Rightarrow>
                \<lparr>h_text = strip g2, h_level = lv, h_start = i, h_end = i + len\<rparr>
                  # html_scan (i + 1) (len - 1) cs
            | None \<Rightarrow> html_scan (i + 1) 0 cs))"

text \<open>\<^verbatim>\<open>extract_headings\<close>: Markdown headings, the HTML ones only when there is none.\<close>

definition extract_headings :: "string \<Rightarrow> heading_match list" where
  "extract_headings text =
     (let md = md_scan 0 0 True text;
          headings = (if md = [] then html_scan 0 0 text else md)
      in sort_key h_start headings)"

subsection \<open>Sections\<close>

text \<open>The loop over the headings, with its counter \<open>section_index\<close> and the list built so far.\<close>

fun heading_sections ::
  "(string \<Rightarrow> string) \<Rightarrow> string \<Rightarrow> string \<Rightarrow> heading_match list \<Rightarrow> nat \<Rightarrow>
   extracted_section list \<Rightarrow> extracted_section list" where
  "heading_sections md5hex text page_url [] section_index sections = sections"
| "heading_sections md5hex text page_url (h # hs) section_index sections =
     (let section_start = h_end h + 1;
          section_end = (case hs of h' # _ \<Rightarrow> h_start h' | [] \<Rightarrow> length text);
          section_text = strip (slice text section_start section_end)
      in if section_text = [] \<or> length section_text < 20
         then heading_sections md5hex text page_url hs section_index sections
         else heading_sections md5hex text page_url hs (section_index + 1)
                (sections @
                 [\<lparr>es_section_id = generate_section_id md5hex page_url (h_text h) section_index,
                   es_heading = h_text h, es_heading_level = h_level h,
                   es_raw_text = section_text, es_start_pos = section_start,
                   es_end_pos = section_end, es_token_count = estimate_tokens section_text\<rparr>]))"

definition intro_sections ::
  "(string \<Rightarrow> string) \<Rightarrow> string \<Rightarrow> string \<Rightarrow> heading_match list \<Rightarrow> extracted_section list" where
  "intro_sections md5hex text page_url headings =
     (case headings of
        [] \<Rightarrow> []
      | h # _ \<Rightarrow>
          (if 0 < h_start h then
             (let intro_text = strip (take (h_start h) text)
              in if intro_text \<noteq> [] \<and> 50 < length intro_text
                 then [\<lparr>es_section_id = generate_section_id md5hex page_url ''Introduction'' 0,
                        es_heading = ''Introduction'', es_heading_level = 1,
                        es_raw_text = intro_text, es_start_pos = 0,
                        es_end_pos = h_start h, es_token_count = estimate_tokens intro_text\<rparr>]
                 else [])
           else []))"

definition content_section :: "(string \<Rightarrow> string) \<Rightarrow> string \<Rightarrow> string \<Rightarrow> extracted_section" where
  "content_section md5hex text page_url =
     \<lparr>es_section_id = generate_section_id md5hex page_url ''Content'' 0,
      es_heading = ''Content'', es_heading_level = 1, es_raw_text = strip text,
      es_start_pos = 0, es_end_pos = length text, es_token_count = estimate_tokens text\<rparr>"

definition extract_sections ::
  "(string \<Rightarrow> string) \<Rightarrow> settings \<Rightarrow> string \<Rightarrow> string \<Rightarrow> extracted_section list" where
  "extract_sections md5hex cfg text page_url =
     (let headings = extract_headings text;
          intro = intro_sections md5hex text page_url headings;
          sections = heading_sections md5hex text page_url headings (length intro) intro;
          sections = (if sections = [] \<and> strip text \<noteq> []
                      then sections @ [content_section md5hex text page_url] else sections)
      in if max_sections_per_page cfg < int (length sections)
         then py_take (max_sections_per_page cfg) sections else sections)"

definition is_large_section :: "settings \<Rightarrow> int \<Rightarrow> bool" where
  "is_large_section cfg token_count \<longleftrightarrow> section_small_threshold cfg < token_count"

text \<open>
  A stand-in for the digest function, used to close concrete examples: it returns
  its argument reversed, so distinct inputs keep distinct digests and the
  truncated digests tell apart inputs that differ at their end.
\<close>

definition digest_stub :: "string \<Rightarrow> string" where
  "digest_stub s = rev s"

section \<open>Agent state (agent/state.py)\<close>

datatype page_type = DOCS | BLOG | API | README | UNKNOWN

fun page_type_value :: "page_type \<Rightarrow> string" where
  "page_type_value DOCS = ''docs''"
| "page_type_value BLOG = ''blog''"
| "page_type_value API = ''api''"
| "page_type_value README = ''readme''"
| "page_type_value UNKNOWN = ''unknown''"

datatype embedding_type = SOURCE | SUMMARY

fun embedding_type_value :: "embedding_type \<Rightarrow> string" where
  "embedding_type_value SOURCE = ''source''"
| "embedding_type_value SUMMARY = ''summary''"

text \<open>
  The role reaches the services either as a plain string or as a member of the
  string enumeration. Comparison with a string, the metadata of a stored
  record and the filter of a query see the value of a member; an f-string
  renders a member by the format of the running interpreter, which is a
  parameter \<open>efmt\<close> of the model. Two formats are given: the value (interpreters
  before 3.11) and the qualified name (from 3.11 on).
\<close>

datatype role_arg = Plain string | Member embedding_type

fun role_value :: "role_arg \<Rightarrow> string" where
  "role_value (Plain s) = s"
| "role_value (Member e) = embedding_type_value e"

fun role_format :: "(embedding_type \<Rightarrow> string) \<Rightarrow> role_arg \<Rightarrow> string" where
  "role_format efmt (Plain s) = s"
| "role_format efmt (Member e) = efmt e"

definition format_member_value :: "embedding_type \<Rightarrow> string" where
  "format_member_value e = embedding_type_value e"

fun format_member_name :: "embedding_type \<Rightarrow> string" where
  "format_member_name SOURCE = ''EmbeddingType.SOURCE''"
| "format_member_name SUMMARY = ''EmbeddingType.SUMMARY''"

record chunk_data =
  c_index :: nat
  c_text :: string
  c_heading :: string
  c_section_id :: string
  c_token_count :: int
  c_extracted_facts :: "string option"

record section_data =
  section_id :: string
  heading :: string
  heading_level :: nat
  raw_text :: string
  token_count :: int
  is_large :: bool
  chunks :: "chunk_data list"
  merged_facts :: "string option"
  summary_text :: "string option"
  is_summarized :: bool
  source_embedded :: bool
  summary_embedded :: bool

text \<open>A result dictionary of \<^verbatim>\<open>search_sections\<close>.\<close>

record search_result =
  r_section_id :: string
  r_score :: real
  r_text :: string
  r_heading :: string
  r_summary_text :: string
  r_embedding_type :: string

text \<open>
  \<^verbatim>\<open>AgentState\<close>. The dictionary \<open>section_summaries\<close> keeps insertion order, so it
  is an association list updated with \<^const>\<open>AList.update\<close>: an existing key keeps its
  place, a new key goes to the end. A node returns a dictionary of updates that the
  graph merges into the state; the model returns the merged state.
\<close>

record agent_state =
  page_url :: string
  page_title :: string
  page_text :: string
  page_type :: page_type
  sections :: "section_data list"
  current_section_index :: nat
  section_summaries :: "(string \<times> string) list"
  page_summary :: string
  final_summary :: string
  embeddings_saved :: bool
  summary_embeddings_saved :: bool
  user_query :: "string option"
  retrieved_sections :: "search_result list"
  followup_response :: string
  current_status :: string
  error :: "string option"

definition create_initial_state :: "string \<Rightarrow> string \<Rightarrow> string \<Rightarrow> agent_state" where
  "create_initial_state url text title =
     \<lparr>page_url = url, page_title = title, page_text = text, page_type = UNKNOWN,
      sections = [], current_section_index = 0, section_summaries = [],
      page_summary = [], final_summary = [], embeddings_saved = False,
      summary_embeddings_saved = False, user_query = None,
      retrieved_sections = [], followup_response = [],
      current_status = ''reading page'', error = None\<rparr>"

section \<open>Prompts (agent/prompts.py)\<close>

definition lines :: "string list \<Rightarrow> string" where
  "lines ls = join [nl] ls"

definition page_type_instructions :: "string \<Rightarrow> string" where
  "page_type_instructions pt =
     (if pt = ''docs'' then lines [''Technical documentation for developers.'',
        ''Focus on: core functionality, usage patterns, configuration, prerequisites.'']
      else if pt = ''blog'' then lines [''Blog post or article.'',
        ''Focus on: main arguments, key insights, conclusions, practical takeaways.'']
      else if pt = ''api'' then lines [''API reference documentation.'',
        ''Focus on: endpoints, request/response formats, parameters, authentication, errors.'']
      else if pt = ''readme'' then lines [''README file or project description.'',
        ''Focus on: project purpose, installation, quick start, key features.'']
      else lines [''General web content.'',
        ''Focus on: main topics, key information, actionable items.''])"

definition build_chunk_fact_extraction_prompt :: "string \<Rightarrow> string \<Rightarrow> string" where
  "build_chunk_fact_extraction_prompt chunk_text chunk_heading =
     lines [''Section: '' @ chunk_heading, [], ''Text:'', chunk_text, [],
            ''Extract factual points and key concepts only.'',
            ''Do not summarize, explain, or rewrite.'',
            ''Output as bullet points:'']"

definition build_section_summary_prompt_direct :: "string \<Rightarrow> string \<Rightarrow> string \<Rightarrow> string" where
  "build_section_summary_prompt_direct section_text section_heading pt =
     lines [''Summarize this documentation section clearly and concisely.'',
            ''Assume the reader is a contributor.'',
            ''Preserve important technical details.'', [],
            ''Page Type: '' @ pt, page_type_instructions pt, [],
            ''Section: '' @ section_heading, [], ''Content:'', section_text, [],
            ''Summary (2-4 paragraphs, use bullet points for lists):'']"

definition build_section_summary_prompt_from_facts :: "string \<Rightarrow> string \<Rightarrow> string \<Rightarrow> string" where
  "build_section_summary_prompt_from_facts facts section_heading pt =
     lines [''Summarize this documentation section using the extracted facts.'',
            ''Assume the reader is a contributor.'',
            ''Preserve important technical details.'', [],
            ''Page Type: '' @ pt, page_type_instructions pt, [],
            ''Section: '' @ section_heading, [], ''Extracted Facts:'', facts, [],
            ''Summary (2-4 paragraphs, synthesize the facts into a coherent summary):'']"

fun summaries_text :: "nat \<Rightarrow> (string \<times> string) list \<Rightarrow> string" where
  "summaries_text i [] = []"
| "summaries_text i ((sid, summary) # rest) =
     [nl] @ ''**Section '' @ str_of_nat i @ '':**'' @ [nl] @ summary @ [nl]
       @ summaries_text (i + 1) rest"

definition build_page_synthesis_prompt :: "(string \<times> string) list \<Rightarrow> string \<Rightarrow> string \<Rightarrow> string" where
  "build_page_synthesis_prompt summaries title pt =
     lines [''Create a high-level overview of this page.'',
            ''Highlight relationships between sections.'',
            ''Avoid repeating section-level details.'', [],
            (if title \<noteq> [] then ''Page: '' @ title @ [nl] else []) @ ''Page Type: '' @ pt, [],
            ''Section Summaries:'', summaries_text 1 summaries, [],
            ''Generate:'',
            ''1. **TL;DR** (5 bullet points max - the essential takeaways)'',
            ''2. **Section Outline** (brief description of what each section covers)'', [],
            ''Page Overview:'']"

section \<open>The generative service (services/llm.py)\<close>

text \<open>
  A request carries the prompt, the key of the system prompt, the output bound and
  the temperature. The service is a parameter of the model: it answers a request
  with a text or fails, and its answer may depend on the requests issued before.
  \<open>generate\<close> records each request in the list of issued requests.
\<close>

datatype system_prompt = Classification | FactExtraction | SectionSummary | PageSynthesis | Followup

record llm_request =
  rq_prompt :: string
  rq_system :: system_prompt
  rq_max_tokens :: nat
  rq_temperature :: real

datatype failure = Failure string

type_synonym llm = "llm_request list \<Rightarrow> llm_request \<Rightarrow> failure + string"

definition generate ::
  "llm \<Rightarrow> llm_request list \<Rightarrow> llm_request \<Rightarrow> llm_request list \<times> (failure + string)" where
  "generate service calls rq = (calls @ [rq], service calls rq)"

text \<open>
  \<^verbatim>\<open>generate_stream\<close> does not raise: when the request fails, the text it yields
  is an error message in square brackets. The result is the whole text of the
  stream; text yielded before a failure in the middle of a stream is not
  modelled.
\<close>

definition failure_text :: "failure \<Rightarrow> string" where
  "failure_text e = (case e of Failure msg \<Rightarrow> msg)"

definition generate_stream ::
  "llm \<Rightarrow> llm_request list \<Rightarrow> llm_request \<Rightarrow> llm_request list \<times> string" where
  "generate_stream service calls rq =
     (calls @ [rq],
      (case service calls rq of
         Inr text \<Rightarrow> text
       | Inl e \<Rightarrow> ''[Error: '' @ failure_text e @ '']''))"

section \<open>Section processing (agent/nodes.py)\<close>

subsection \<open>Chunk splitter\<close>

definition sentence_tokens :: "string \<Rightarrow> int" where
  "sentence_tokens sentence = scale_tokens (length (split_words sentence))"

definition mk_chunk :: "section_data \<Rightarrow> nat \<Rightarrow> string list \<Rightarrow> int \<Rightarrow> chunk_data" where
  "mk_chunk section i current_chunk current_tokens =
     \<lparr>c_index = i, c_text = join ''. '' current_chunk @ ''.'',
      c_heading = heading section, c_section_id = section_id section,
      c_token_count = current_tokens, c_extracted_facts = None\<rparr>"

text \<open>
  The loop of \<^verbatim>\<open>_split_section_into_chunks\<close> over the raw sentences, with its three
  variables: the chunks closed so far (\<open>chunks\<close> in the source), the sentences of the open chunk and their
  token count.
\<close>

fun chunk_loop ::
  "int \<Rightarrow> section_data \<Rightarrow> string list \<Rightarrow> chunk_data list \<Rightarrow> string list \<Rightarrow> int \<Rightarrow>
   chunk_data list \<times> string list \<times> int" where
  "chunk_loop max_chunk_tokens section [] finished current_chunk current_tokens =
     (finished, current_chunk, current_tokens)"
| "chunk_loop max_chunk_tokens section (raw # rest) finished current_chunk current_tokens =
     (let sentence = strip raw
      in if sentence = [] then
           chunk_loop max_chunk_tokens section rest finished current_chunk current_tokens
         else if max_chunk_tokens < current_tokens + sentence_tokens sentence \<and> current_chunk \<noteq> []
         then chunk_loop max_chunk_tokens section rest
                (finished @ [mk_chunk section (length finished) current_chunk current_tokens])
                [sentence] (sentence_tokens sentence)
         else chunk_loop max_chunk_tokens section rest finished
                (current_chunk @ [sentence]) (current_tokens + sentence_tokens sentence))"

definition raw_sentences :: "string \<Rightarrow> string list" where
  "raw_sentences text = split_dot_space [] (map (\<lambda>c. if c = nl then CHR '' '' else c) text)"

definition split_section_into_chunks :: "settings \<Rightarrow> section_data \<Rightarrow> chunk_data list" where
  "split_section_into_chunks cfg section =
     (case chunk_loop (chunk_max_tokens cfg) section (raw_sentences (raw_text section)) [] [] 0 of
        (finished, current_chunk, current_tokens) \<Rightarrow>
          (if current_chunk \<noteq> []
           then finished @ [mk_chunk section (length finished) current_chunk current_tokens]
           else finished))"

text \<open>
  The sentence sequence of a section as the splitter sees it: the pieces between
  the separators, stripped, the empty ones left out. \<open>render_group\<close> is the text
  the splitter gives a chunk made of the sentences \<open>g\<close>.
\<close>

definition section_sentences :: "string \<Rightarrow> string list" where
  "section_sentences text = filter (\<lambda>s. s \<noteq> []) (map strip (raw_sentences text))"

definition render_group :: "string list \<Rightarrow> string" where
  "render_group g = join ''. '' g @ ''.''"

subsection \<open>The two strategies\<close>

definition direct_request :: "section_data \<Rightarrow> string \<Rightarrow> llm_request" where
  "direct_request section pt =
     \<lparr>rq_prompt = build_section_summary_prompt_direct (raw_text section) (heading section) pt,
      rq_system = SectionSummary, rq_max_tokens = 512, rq_temperature = 0.5\<rparr>"

definition process_small_section ::
  "llm \<Rightarrow> llm_request list \<Rightarrow> section_data \<Rightarrow> string \<Rightarrow> llm_request list \<times> (failure + string)" where
  "process_small_section service calls section pt =
     generate service calls (direct_request section pt)"

definition fact_request :: "section_data \<Rightarrow> chunk_data \<Rightarrow> llm_request" where
  "fact_request section chunk =
     \<lparr>rq_prompt = build_chunk_fact_extraction_prompt (c_text chunk) (heading section),
      rq_system = FactExtraction, rq_max_tokens = 300, rq_temperature = 0.3\<rparr>"

text \<open>
  The loop over the chunks: a failing request ends it, as the exception leaves
  \<^verbatim>\<open>_process_large_section\<close>.
\<close>

fun extract_facts ::
  "llm \<Rightarrow> llm_request list \<Rightarrow> section_data \<Rightarrow> chunk_data list \<Rightarrow> string list \<Rightarrow>
   llm_request list \<times> (failure + string list)" where
  "extract_facts service calls section [] all_facts = (calls, Inr all_facts)"
| "extract_facts service calls section (chunk # rest) all_facts =
     (case generate service calls (fact_request section chunk) of
        (calls', Inl e) \<Rightarrow> (calls', Inl e)
      | (calls', Inr facts) \<Rightarrow> extract_facts service calls' section rest (all_facts @ [facts]))"

definition facts_summary_request :: "section_data \<Rightarrow> string \<Rightarrow> string list \<Rightarrow> llm_request" where
  "facts_summary_request section pt all_facts =
     \<lparr>rq_prompt = build_section_summary_prompt_from_facts (join [nl] all_facts) (heading section) pt,
      rq_system = SectionSummary, rq_max_tokens = 512, rq_temperature = 0.5\<rparr>"

definition process_large_section ::
  "settings \<Rightarrow> llm \<Rightarrow> llm_request list \<Rightarrow> section_data \<Rightarrow> string \<Rightarrow>
   llm_request list \<times> (failure + string)" where
  "process_large_section cfg service calls section pt =
     (case extract_facts service calls section (split_section_into_chunks cfg section) [] of
        (calls', Inl e) \<Rightarrow> (calls', Inl e)
      | (calls', Inr all_facts) \<Rightarrow>
          generate service calls' (facts_summary_request section pt all_facts))"

subsection \<open>The node and the loop condition\<close>

definition error_placeholder :: "section_data \<Rightarrow> string" where
  "error_placeholder section = ''[Error summarizing: '' @ heading section @ '']''"

definition process_section_node ::
  "settings \<Rightarrow> llm \<Rightarrow> llm_request list \<Rightarrow> agent_state \<Rightarrow> llm_request list \<times> agent_state" where
  "process_section_node cfg service calls state =
     (let idx = current_section_index state
      in if length (sections state) \<le> idx
         then (calls, state\<lparr>current_status := ''all sections processed''\<rparr>)
         else
           (let section = sections state ! idx
            in case (if is_large section
                     then process_large_section cfg service calls section (page_type_value (page_type state))
                     else process_small_section service calls section (page_type_value (page_type state))) of
                 (calls', Inr summary) \<Rightarrow>
                   (calls', state
                      \<lparr>sections := (sections state)
                          [idx := section\<lparr>summary_text := Some summary, is_summarized := True\<rparr>],
                       section_summaries :=
                          AList.update (section_id section) summary (section_summaries state),
                       current_section_index := idx + 1,
                       current_status := ''summarized section '' @ str_of_nat (idx + 1) @ ''/''
                          @ str_of_nat (length (sections state))\<rparr>)
               | (calls', Inl e) \<Rightarrow>
                   (calls', state
                      \<lparr>section_summaries :=
                          AList.update (section_id section) (error_placeholder section)
                            (section_summaries state),
                       current_section_index := idx + 1,
                       current_status := ''error on section '' @ str_of_nat (idx + 1)\<rparr>)))"

definition should_continue_processing :: "agent_state \<Rightarrow> string" where
  "should_continue_processing state =
     (if current_section_index state < length (sections state) then ''continue'' else ''embed'')"

subsection \<open>Section extraction node\<close>

definition to_section_data :: "settings \<Rightarrow> extracted_section \<Rightarrow> section_data" where
  "to_section_data cfg raw =
     \<lparr>section_id = es_section_id raw, heading = es_heading raw,
      heading_level = es_heading_level raw, raw_text = es_raw_text raw,
      token_count = es_token_count raw,
      is_large = is_large_section cfg (es_token_count raw),
      chunks = [], merged_facts = None, summary_text = None, is_summarized = False,
      source_embedded = False, summary_embedded = False\<rparr>"

definition extract_sections_node :: "(string \<Rightarrow> string) \<Rightarrow> settings \<Rightarrow> agent_state \<Rightarrow> agent_state" where
  "extract_sections_node md5hex cfg state =
     (let raw_sections = extract_sections md5hex cfg (page_text state) (page_url state);
          new_sections = map (to_section_data cfg) raw_sections
      in state\<lparr>sections := new_sections, current_section_index := 0,
               current_status := ''extracted '' @ str_of_nat (length new_sections) @ '' sections''\<rparr>)"

subsection \<open>The processing loop of the summarization graph\<close>

text \<open>
  The graph enters \<^verbatim>\<open>process_section\<close> after \<^verbatim>\<open>extract_sections\<close> and follows the
  conditional edge back to it as long as \<^verbatim>\<open>should_continue_processing\<close> answers
  \<^verbatim>\<open>continue\<close>; on \<^verbatim>\<open>embed\<close> it goes on to \<^verbatim>\<open>embed_source\<close>.
\<close>

text \<open>
  Modelled from the spec: the stage graph of section 2 is driven by an external
  graph library, which is not part of the sources. The library runs one node per
  step and ends a run with a recursion error once the run has used up its limit
  of steps; the limit is 25 unless the caller passes one, and \<^verbatim>\<open>summarize_page\<close>
  passes only a thread id. Two steps (\<^verbatim>\<open>classify_page\<close>, \<^verbatim>\<open>extract_sections\<close>) come
  before the loop, while \<^verbatim>\<open>max_sections_per_page\<close> admits 30 sections.

  \<open>process_loop steps\<close> runs the loop with \<open>steps\<close> steps left. It returns the
  number of invocations of the node together with the issued requests and the
  state handed to \<^verbatim>\<open>embed_source\<close>, or the recursion error when the steps run
  out before the condition answers \<^verbatim>\<open>embed\<close>.
\<close>

datatype graph_error = GraphRecursionError

definition default_recursion_limit :: nat where
  "default_recursion_limit = 25"

definition steps_before_loop :: nat where
  "steps_before_loop = 2"

fun process_loop ::
  "nat \<Rightarrow> settings \<Rightarrow> llm \<Rightarrow> llm_request list \<Rightarrow> agent_state \<Rightarrow>
   graph_error + (nat \<times> llm_request list \<times> agent_state)" where
  "process_loop 0 cfg service calls state = Inl GraphRecursionError"
| "process_loop (Suc steps) cfg service calls state =
     (case process_section_node cfg service calls state of
        (calls', state') \<Rightarrow>
          (if should_continue_processing state' = ''continue''
           then (case process_loop steps cfg service calls' state' of
                   Inl e \<Rightarrow> Inl e
                 | Inr (n, r) \<Rightarrow> Inr (Suc n, r))
           else Inr (1, calls', state')))"

subsection \<open>Page synthesis node\<close>

definition synthesis_request :: "agent_state \<Rightarrow> llm_request" where
  "synthesis_request state =
     \<lparr>rq_prompt = build_page_synthesis_prompt (section_summaries state) (page_title state)
                    (page_type_value (page_type state)),
      rq_system = PageSynthesis, rq_max_tokens = 800, rq_temperature = 0.5\<rparr>"

definition synthesize_page_node ::
  "llm \<Rightarrow> llm_request list \<Rightarrow> agent_state \<Rightarrow> llm_request list \<times> agent_state" where
  "synthesize_page_node service calls state =
     (if section_summaries state = [] then
        (calls, state\<lparr>page_summary := ''No content was summarized.'',
                      current_status := ''complete''\<rparr>)
      else if length (section_summaries state) = 1 then
        (let only_summary = snd (hd (section_summaries state))
         in (calls, state\<lparr>page_summary := only_summary, final_summary := only_summary,
                          current_status := ''complete''\<rparr>))
      else
        (case generate service calls (synthesis_request state) of
           (calls', Inr summary) \<Rightarrow>
             (calls', state\<lparr>page_summary := summary, final_summary := summary,
                             current_status := ''complete''\<rparr>)
         | (calls', Inl e) \<Rightarrow>
             (let fallback = join ([nl, nl] @ ''---'' @ [nl, nl]) (map snd (section_summaries state))
              in (calls', state\<lparr>page_summary := fallback, final_summary := fallback,
                               current_status := ''complete (synthesis failed)''\<rparr>))))"

section \<open>Vector index (services/pinecone\_client.py)\<close>

text \<open>
  The metadata dictionary that \<^verbatim>\<open>upsert_sections\<close> writes, a stored vector and a match
  returned by a query. The embedding vectors are of an arbitrary type \<open>'v\<close>.
\<close>

record metadata =
  md_vector_id :: string
  md_page_url :: string
  md_section_id :: string
  md_heading :: string
  md_text :: string
  md_section_text :: string
  md_summary_text :: string
  md_embedding_type :: string

record 'v vector =
  v_id :: string
  v_values :: 'v
  v_metadata :: metadata

record vector_match =
  m_id :: string
  m_score :: real
  m_metadata :: metadata

text \<open>
  Modelled from the spec: the vector store is an external service with the
  interface of section 6, \<^verbatim>\<open>upsert(namespace, records[])\<close> and
  \<^verbatim>\<open>query(namespace, vector, filter, top_k) -> matches[]\<close>. The store holds one
  record per namespace and id, an upsert replaces the record of an id that is
  present, and a query answers with the records of the namespace that pass the
  metadata filter, best score first, at most \<open>top_k\<close> of them. The similarity
  measure \<open>sim\<close> is a parameter.
\<close>

type_synonym 'v pinecone_index = "((string \<times> string) \<times> 'v vector) list"

definition index_upsert :: "'v vector list \<Rightarrow> string \<Rightarrow> 'v pinecone_index \<Rightarrow> 'v pinecone_index" where
  "index_upsert vectors namespace idx =
     fold (\<lambda>v. AList.update (namespace, v_id v) v) vectors idx"

definition passes_filter :: "string option \<Rightarrow> metadata \<Rightarrow> bool" where
  "passes_filter flt md = (case flt of None \<Rightarrow> True | Some et \<Rightarrow> md_embedding_type md = et)"

definition index_query ::
  "('v \<Rightarrow> 'v \<Rightarrow> real) \<Rightarrow> 'v pinecone_index \<Rightarrow> 'v \<Rightarrow> nat \<Rightarrow> string \<Rightarrow> string option \<Rightarrow>
   vector_match list" where
  "index_query sim idx query_vector top_k namespace flt =
     take top_k (sort_key (\<lambda>m. - m_score m)
       (map (\<lambda>(k, v). \<lparr>m_id = v_id v, m_score = sim query_vector (v_values v),
                        m_metadata = v_metadata v\<rparr>)
            (filter (\<lambda>(k, v). fst k = namespace \<and> passes_filter flt (v_metadata v)) idx)))"


definition generate_namespace :: "(string \<Rightarrow> string) \<Rightarrow> string \<Rightarrow> string" where
  "generate_namespace md5hex url = take 16 (md5hex url)"

definition generate_vector_id ::
  "(string \<Rightarrow> string) \<Rightarrow> (embedding_type \<Rightarrow> string) \<Rightarrow> string \<Rightarrow> string \<Rightarrow> role_arg \<Rightarrow> string" where
  "generate_vector_id md5hex efmt url sid et =
     md5hex (url @ '':'' @ sid @ '':'' @ role_format efmt et)"

text \<open>A section dictionary handed to the store, with the keys the embedding nodes set.\<close>

record section_dict =
  sd_section_id :: string
  sd_heading :: string
  sd_text :: string
  sd_summary_text :: string
  sd_embedding_type :: string

text \<open>\<^verbatim>\<open>_batch_upsert\<close>: batches of 100, the count of stored vectors as the result.\<close>

function batch_upsert ::
  "'v vector list \<Rightarrow> string \<Rightarrow> 'v pinecone_index \<Rightarrow> nat \<Rightarrow> 'v pinecone_index \<times> nat" where
  "batch_upsert vectors namespace idx total_upserted =
     (if vectors = [] then (idx, total_upserted)
      else batch_upsert (drop 100 vectors) namespace
             (index_upsert (take 100 vectors) namespace idx)
             (total_upserted + length (take 100 vectors)))"
  by pat_completeness auto
termination
  by (relation "measure (\<lambda>(vectors, namespace, idx, total_upserted). length vectors)") auto

declare batch_upsert.simps [simp del]

definition section_vector ::
  "(string \<Rightarrow> string) \<Rightarrow> (embedding_type \<Rightarrow> string) \<Rightarrow> string \<Rightarrow> role_arg \<Rightarrow> section_dict \<Rightarrow>
   'v \<Rightarrow> 'v vector" where
  "section_vector md5hex efmt url et section embedding =
     (let vector_id = generate_vector_id md5hex efmt url (sd_section_id section) et
      in \<lparr>v_id = vector_id, v_values = embedding,
          v_metadata = \<lparr>md_vector_id = vector_id, md_page_url = url,
                        md_section_id = sd_section_id section, md_heading = sd_heading section,
                        md_text = take 1000 (sd_text section), md_section_text = sd_text section,
                        md_summary_text = sd_summary_text section,
                        md_embedding_type = role_value et\<rparr>\<rparr>)"

definition upsert_sections ::
  "(string \<Rightarrow> string) \<Rightarrow> (embedding_type \<Rightarrow> string) \<Rightarrow> string \<Rightarrow> section_dict list \<Rightarrow> 'v list \<Rightarrow>
   role_arg \<Rightarrow> 'v pinecone_index \<Rightarrow> 'v pinecone_index \<times> nat" where
  "upsert_sections md5hex efmt url section_dicts embeddings et idx =
     batch_upsert (map (\<lambda>(section, embedding).
                          section_vector md5hex efmt url et section embedding)
                       (zip section_dicts embeddings))
                  (generate_namespace md5hex url) idx 0"

definition match_result :: "vector_match \<Rightarrow> search_result" where
  "match_result m =
     \<lparr>r_section_id = md_section_id (m_metadata m), r_score = m_score m,
      r_text = md_section_text (m_metadata m), r_heading = md_heading (m_metadata m),
      r_summary_text = md_summary_text (m_metadata m),
      r_embedding_type = md_embedding_type (m_metadata m)\<rparr>"

definition search_sections ::
  "(string \<Rightarrow> string) \<Rightarrow> ('v \<Rightarrow> 'v \<Rightarrow> real) \<Rightarrow> 'v pinecone_index \<Rightarrow> string \<Rightarrow> 'v \<Rightarrow> role_arg \<Rightarrow>
   nat \<Rightarrow> real \<Rightarrow> search_result list" where
  "search_sections md5hex sim idx url query_embedding et top_k score_threshold =
     map match_result
       (filter (\<lambda>m. score_threshold \<le> m_score m)
          (index_query sim idx query_embedding top_k (generate_namespace md5hex url)
             (Some (role_value et))))"

text \<open>The legacy \<^verbatim>\<open>search_similar\<close>: the same query without a metadata filter.\<close>

record chunk_result =
  cr_chunk_id :: string
  cr_score :: real
  cr_text :: string
  cr_heading :: string
  cr_chunk_index :: int
  cr_section_id :: string

definition match_chunk :: "vector_match \<Rightarrow> chunk_result" where
  "match_chunk m =
     \<lparr>cr_chunk_id = m_id m, cr_score = m_score m, cr_text = md_section_text (m_metadata m),
      cr_heading = md_heading (m_metadata m), cr_chunk_index = 0,
      cr_section_id = md_section_id (m_metadata m)\<rparr>"

definition search_similar ::
  "(string \<Rightarrow> string) \<Rightarrow> ('v \<Rightarrow> 'v \<Rightarrow> real) \<Rightarrow> 'v pinecone_index \<Rightarrow> string \<Rightarrow> 'v \<Rightarrow>
   nat \<Rightarrow> real \<Rightarrow> chunk_result list" where
  "search_similar md5hex sim idx url query_embedding top_k score_threshold =
     map match_chunk
       (filter (\<lambda>m. score_threshold \<le> m_score m)
          (index_query sim idx query_embedding top_k (generate_namespace md5hex url) None))"

section \<open>Retrieval service (services/retrieval.py)\<close>

text \<open>
  The embedding service is a parameter: \<open>embed_texts\<close> embeds passages,
  \<open>embed_query\<close> a query, and either may fail. The services the functions below
  use come as one record.
\<close>

record 'v services =
  md5hex :: "string \<Rightarrow> string"
  enum_format :: "embedding_type \<Rightarrow> string"
  similarity :: "'v \<Rightarrow> 'v \<Rightarrow> real"
  embed_texts :: "string list \<Rightarrow> failure + 'v list"
  embed_query :: "string \<Rightarrow> failure + 'v"

definition store_sections ::
  "'v services \<Rightarrow> string \<Rightarrow> section_dict list \<Rightarrow> role_arg \<Rightarrow> 'v pinecone_index \<Rightarrow>
   failure + ('v pinecone_index \<times> nat)" where
  "store_sections sv url section_dicts et idx =
     (if section_dicts = [] then Inr (idx, 0)
      else (case embed_texts sv (if role_value et = ''source'' then map sd_text section_dicts
                                 else map sd_summary_text section_dicts) of
              Inl e \<Rightarrow> Inl e
            | Inr embeddings \<Rightarrow>
                Inr (upsert_sections (md5hex sv) (enum_format sv) url section_dicts embeddings
                       et idx)))"

definition or_default :: "'a option \<Rightarrow> 'a \<Rightarrow> 'a \<Rightarrow> 'a" where
  "or_default v falsy d = (case v of None \<Rightarrow> d | Some x \<Rightarrow> if x = falsy then d else x)"

definition retrieve_sections ::
  "'v services \<Rightarrow> settings \<Rightarrow> 'v pinecone_index \<Rightarrow> string \<Rightarrow> string \<Rightarrow> role_arg \<Rightarrow>
   nat option \<Rightarrow> real option \<Rightarrow> failure + search_result list" where
  "retrieve_sections sv cfg idx url query et top_k score_threshold =
     (case embed_query sv query of
        Inl e \<Rightarrow> Inl e
      | Inr query_embedding \<Rightarrow>
          Inr (sort_key (\<lambda>r. - r_score r)
                 (search_sections (md5hex sv) (similarity sv) idx url query_embedding et
                    (or_default top_k 0 (top_k_retrieval cfg))
                    (or_default score_threshold 0 (similarity_threshold cfg)))))"

definition retrieve_relevant_chunks ::
  "'v services \<Rightarrow> settings \<Rightarrow> 'v pinecone_index \<Rightarrow> string \<Rightarrow> string \<Rightarrow>
   nat option \<Rightarrow> real option \<Rightarrow> failure + chunk_result list" where
  "retrieve_relevant_chunks sv cfg idx url query top_k score_threshold =
     (case embed_query sv query of
        Inl e \<Rightarrow> Inl e
      | Inr query_embedding \<Rightarrow>
          Inr (sort_key (\<lambda>r. - cr_score r)
                 (search_similar (md5hex sv) (similarity sv) idx url query_embedding
                    (or_default top_k 0 (top_k_retrieval cfg))
                    (or_default score_threshold 0 (similarity_threshold cfg)))))"

subsection \<open>Grounding context\<close>

text \<open>
  \<^verbatim>\<open>build_context_from_sections\<close> reads the heading, the text and the score of each
  result. \<open>fmt\<close> is the two-decimal formatting of the score in the f-string.
\<close>

record context_item =
  ci_heading :: string
  ci_text :: string
  ci_score :: real

definition section_item :: "search_result \<Rightarrow> context_item" where
  "section_item r = \<lparr>ci_heading = r_heading r, ci_text = r_text r, ci_score = r_score r\<rparr>"

definition chunk_item :: "chunk_result \<Rightarrow> context_item" where
  "chunk_item r = \<lparr>ci_heading = cr_heading r, ci_text = cr_text r, ci_score = cr_score r\<rparr>"

definition render_section :: "(real \<Rightarrow> string) \<Rightarrow> context_item \<Rightarrow> string" where
  "render_section fmt s =
     ''## '' @ ci_heading s @ '' (relevance: '' @ fmt (ci_score s) @ '')'' @ [nl] @ ci_text s @ [nl]"

definition section_tokens :: "(real \<Rightarrow> string) \<Rightarrow> context_item \<Rightarrow> int" where
  "section_tokens fmt s = int (length (render_section fmt s)) div 4"

fun context_loop ::
  "(real \<Rightarrow> string) \<Rightarrow> int \<Rightarrow> context_item list \<Rightarrow> string list \<Rightarrow> int \<Rightarrow> string list" where
  "context_loop fmt max_tokens [] context_parts current_length = context_parts"
| "context_loop fmt max_tokens (s # rest) context_parts current_length =
     (if max_tokens < current_length + section_tokens fmt s then
        (let remaining = max_tokens - current_length;
             remaining_chars = remaining * 4
         in if 100 < remaining_chars
            then context_parts @ [take (nat remaining_chars) (render_section fmt s) @ ''...'']
            else context_parts)
      else context_loop fmt max_tokens rest (context_parts @ [render_section fmt s])
             (current_length + section_tokens fmt s))"

definition build_context_from_sections :: "(real \<Rightarrow> string) \<Rightarrow> context_item list \<Rightarrow> int \<Rightarrow> string" where
  "build_context_from_sections fmt items max_tokens =
     (if items = [] then [] else join [nl] (context_loop fmt max_tokens items [] 0))"

section \<open>Follow-up questions (agent/nodes.py)\<close>

definition build_followup_prompt :: "string \<Rightarrow> string \<Rightarrow> string \<Rightarrow> string" where
  "build_followup_prompt query retrieved_context title =
     lines [''Answer the following question using ONLY the provided context.'',
            ''Be precise and specific.'',
            ''If the context doesn't contain enough information, say so clearly.'', [],
            (if title \<noteq> [] then ''Document: '' @ title @ [nl] else []),
            ''Relevant Context:'', retrieved_context, [],
            ''Question: '' @ query, [],
            ''Provide a clear, direct answer. Cite specific sections when relevant.'', [],
            ''Answer:'']"

definition followup_request :: "agent_state \<Rightarrow> string \<Rightarrow> string \<Rightarrow> llm_request" where
  "followup_request state query retrieved_context =
     \<lparr>rq_prompt = build_followup_prompt query retrieved_context (page_title state),
      rq_system = Followup, rq_max_tokens = 512, rq_temperature = 0.3\<rparr>"

definition no_answer :: string where
  "no_answer = ''I couldn't find relevant information to answer that question.''"

text \<open>\<^verbatim>\<open>handle_followup_node\<close>: the node of the follow-up graph.\<close>

definition handle_followup_node ::
  "'v services \<Rightarrow> settings \<Rightarrow> (real \<Rightarrow> string) \<Rightarrow> 'v pinecone_index \<Rightarrow> llm \<Rightarrow>
   llm_request list \<Rightarrow> agent_state \<Rightarrow> llm_request list \<times> agent_state" where
  "handle_followup_node sv cfg fmt idx service calls state =
     (case user_query state of
        None \<Rightarrow> (calls, state\<lparr>error := Some ''No query provided'', current_status := ''error''\<rparr>)
      | Some query \<Rightarrow>
          (if query = [] then
             (calls, state\<lparr>error := Some ''No query provided'', current_status := ''error''\<rparr>)
           else
             (case retrieve_sections sv cfg idx (page_url state) query
                     (Member SOURCE) None None of
                Inl e \<Rightarrow>
                  (calls, state\<lparr>error := Some (''Failed to answer question: '' @ failure_text e),
                                current_status := ''error''\<rparr>)
              | Inr results \<Rightarrow>
                  (let retrieved = map (\<lambda>r. r\<lparr>r_embedding_type := embedding_type_value SOURCE\<rparr>) results
                   in if retrieved = [] then
                        (calls, state\<lparr>retrieved_sections := [], followup_response := no_answer,
                                      current_status := ''complete''\<rparr>)
                      else
                        (case generate service calls
                                (followup_request state query
                                   (build_context_from_sections fmt (map section_item results) 2000)) of
                           (calls', Inr response) \<Rightarrow>
                             (calls', state\<lparr>retrieved_sections := retrieved,
                                            followup_response := response,
                                            current_status := ''complete''\<rparr>)
                         | (calls', Inl e) \<Rightarrow>
                             (calls', state\<lparr>error := Some (''Failed to answer question: '' @ failure_text e),
                                            current_status := ''error''\<rparr>))))))"

text \<open>
  \<^verbatim>\<open>handle_followup_streaming\<close> is defined twice in nodes.py. The second
  definition, in the legacy part of the module, is the one the name is bound to
  when graph.py imports it; it serves the streaming follow-up endpoint. The first
  is kept here under its own name. The text the generator yields is the result;
  a failure of the embedding service leaves the generator as an exception, a
  failure of the generative service becomes the error text of the stream.
\<close>

definition handle_followup_streaming_first ::
  "'v services \<Rightarrow> settings \<Rightarrow> (real \<Rightarrow> string) \<Rightarrow> 'v pinecone_index \<Rightarrow> llm \<Rightarrow>
   llm_request list \<Rightarrow> agent_state \<Rightarrow> llm_request list \<times> (failure + string)" where
  "handle_followup_streaming_first sv cfg fmt idx service calls state =
     (case user_query state of
        None \<Rightarrow> (calls, Inr ''No query provided.'')
      | Some query \<Rightarrow>
          (if query = [] then (calls, Inr ''No query provided.'')
           else
             (case retrieve_sections sv cfg idx (page_url state) query
                     (Member SOURCE) None None of
                Inl e \<Rightarrow> (calls, Inl e)
              | Inr results \<Rightarrow>
                  (if results = [] then (calls, Inr no_answer)
                   else (case generate_stream service calls
                                (followup_request state query
                                   (build_context_from_sections fmt (map section_item results)
                                      2000)) of
                           (calls', text) \<Rightarrow> (calls', Inr text))))))"

definition handle_followup_streaming ::
  "'v services \<Rightarrow> settings \<Rightarrow> (real \<Rightarrow> string) \<Rightarrow> 'v pinecone_index \<Rightarrow> llm \<Rightarrow>
   llm_request list \<Rightarrow> agent_state \<Rightarrow> llm_request list \<times> (failure + string)" where
  "handle_followup_streaming sv cfg fmt idx service calls state =
     (case user_query state of
        None \<Rightarrow> (calls, Inr ''No query provided.'')
      | Some query \<Rightarrow>
          (if query = [] then (calls, Inr ''No query provided.'')
           else
             (case retrieve_relevant_chunks sv cfg idx (page_url state) query None None of
                Inl e \<Rightarrow> (calls, Inl e)
              | Inr results \<Rightarrow>
                  (if results = [] then (calls, Inr no_answer)
                   else (case generate_stream service calls
                                (followup_request state query
                                   (build_context_from_sections fmt (map chunk_item results)
                                      2000)) of
                           (calls', text) \<Rightarrow> (calls', Inr text))))))"

section \<open>Link crawler (services/link\_crawler.py)\<close>

text \<open>
  The HTML parser and the URL functions of the standard library are outside the
  repository: the anchors the parser finds (the \<^verbatim>\<open>href\<close>, the stripped text and
  the stripped text of the parent, if there is one) are an input, and
  \<open>urljoin\<close> and \<open>netloc\<close> are parameters.
\<close>

record anchor =
  a_href :: string
  a_text :: string
  a_parent_text :: "string option"

record link =
  l_url :: string
  l_text :: string
  l_context :: string

definition starts_with :: "string \<Rightarrow> string \<Rightarrow> bool" where
  "starts_with s p \<longleftrightarrow> take (length p) s = p"

fun html_links ::
  "(string \<Rightarrow> string \<Rightarrow> string) \<Rightarrow> (string \<Rightarrow> string) \<Rightarrow> string \<Rightarrow> anchor list \<Rightarrow> link list \<Rightarrow> link list" where
  "html_links urljoin netloc base_url [] links = links"
| "html_links urljoin netloc base_url (a # rest) links =
     (let href = a_href a
      in if href = [] \<or> starts_with href ''#'' \<or> starts_with href ''javascript:''
         then html_links urljoin netloc base_url rest links
         else if starts_with href ''mailto:'' \<or> starts_with href ''tel:''
         then html_links urljoin netloc base_url rest links
         else (let full_url = urljoin base_url href
               in if netloc full_url \<noteq> netloc base_url
                  then html_links urljoin netloc base_url rest links
                  else html_links urljoin netloc base_url rest
                         (links @ [\<lparr>l_url = full_url, l_text = a_text a,
                                    l_context = (case a_parent_text a of
                                                   None \<Rightarrow> [] | Some t \<Rightarrow> take 200 t)\<rparr>])))"

text \<open>
  The Markdown link pattern \<^verbatim>\<open>\[([^\]]+)\]\(([^)]+)\)\<close>: each group is a maximal
  non-empty run, since the character after it is fixed. The result is group 1,
  group 2 and the length of the match.
\<close>

fun match_md_link :: "string \<Rightarrow> (string \<times> string \<times> nat) option" where
  "match_md_link [] = None"
| "match_md_link (c # cs) =
     (if c \<noteq> CHR ''['' then None
      else (let t = takeWhile (\<lambda>x. x \<noteq> CHR '']'') cs;
                r = drop (length t) cs
            in if t = [] \<or> take 2 r \<noteq> '']('' then None
               else (let u = takeWhile (\<lambda>x. x \<noteq> CHR '')'') (drop 2 r)
                     in if u = [] \<or> drop (length u) (drop 2 r) = [] then None
                        else Some (t, u, 1 + length t + 2 + length u + 1))))"

record link_match =
  lm_text :: string
  lm_href :: string
  lm_start :: nat
  lm_end :: nat

fun md_link_scan :: "nat \<Rightarrow> nat \<Rightarrow> string \<Rightarrow> link_match list" where
  "md_link_scan i skip [] = []"
| "md_link_scan i skip (c # cs) =
     (if 0 < skip then md_link_scan (i + 1) (skip - 1) cs
      else (case match_md_link (c # cs) of
              Some (t, u, len) \<Rightarrow>
                \<lparr>lm_text = t, lm_href = u, lm_start = i, lm_end = i + len\<rparr>
                  # md_link_scan (i + 1) (len - 1) cs
            | None \<Rightarrow> md_link_scan (i + 1) 0 cs))"

fun md_links ::
  "(string \<Rightarrow> string \<Rightarrow> string) \<Rightarrow> (string \<Rightarrow> string) \<Rightarrow> string \<Rightarrow> string \<Rightarrow> link_match list \<Rightarrow>
   link list \<Rightarrow> link list" where
  "md_links urljoin netloc page base_url [] links = links"
| "md_links urljoin netloc page base_url (m # rest) links =
     (let href = lm_href m
      in if starts_with href ''#'' \<or>
            (starts_with href ''http://'' \<and> netloc href \<noteq> netloc base_url)
         then md_links urljoin netloc page base_url rest links
         else (let full_url = urljoin base_url href;
                   context = slice page (lm_start m - 100) (min (length page) (lm_end m + 100))
               in if \<not> list_ex (\<lambda>l. l_url l = full_url) links
                  then md_links urljoin netloc page base_url rest
                         (links @ [\<lparr>l_url = full_url, l_text = lm_text m, l_context = context\<rparr>])
                  else md_links urljoin netloc page base_url rest links))"

definition extract_links ::
  "(string \<Rightarrow> string \<Rightarrow> string) \<Rightarrow> (string \<Rightarrow> string) \<Rightarrow> anchor list \<Rightarrow> string \<Rightarrow> string \<Rightarrow> link list" where
  "extract_links urljoin netloc anchors page base_url =
     md_links urljoin netloc page base_url (md_link_scan 0 0 page)
       (html_links urljoin netloc base_url anchors [])"

subsection \<open>Scoring and crawling\<close>

definition in_range :: "char \<Rightarrow> char \<Rightarrow> char \<Rightarrow> bool" where
  "in_range lo hi c \<longleftrightarrow> (of_char lo :: nat) \<le> of_char c \<and> (of_char c :: nat) \<le> of_char hi"

text \<open>
  \<^verbatim>\<open>str.lower\<close> on one character: the letters A to Z and the capital letters
  0xC0 to 0xDE, the multiplication sign 0xD7 apart, move up by 32.
\<close>

definition lower_char :: "char \<Rightarrow> char" where
  "lower_char c =
     (if in_range (CHR ''A'') (CHR ''Z'') c \<or>
         (in_range (CHR 0xC0) (CHR 0xDE) c \<and> c \<noteq> CHR 0xD7)
      then char_of (of_char c + (32::nat)) else c)"

definition word_set :: "string \<Rightarrow> string list" where
  "word_set s = remdups (split_words (map lower_char s))"

definition doc_keywords :: "string list" where
  "doc_keywords = [''setup'', ''install'', ''guide'', ''tutorial'', ''getting'', ''started'',
                   ''development'', ''environment'', ''configuration'', ''wsl'', ''windows'',
                   ''linux'', ''mac'', ''docker'', ''vagrant'', ''prerequisites'']"

definition relevance_score :: "string \<Rightarrow> link \<Rightarrow> nat" where
  "relevance_score query l =
     (let query_words = word_set query;
          text_words = word_set (l_text l);
          context_words = word_set (l_context l);
          text_overlap = length (filter (\<lambda>w. w \<in> set text_words) query_words);
          context_overlap = length (filter (\<lambda>w. w \<in> set context_words) query_words);
          keyword_bonus = length (filter (\<lambda>w. w \<in> set doc_keywords \<and>
                                               (w \<in> set text_words \<or> w \<in> set context_words))
                                         query_words)
      in text_overlap * 3 + context_overlap + keyword_bonus * 2)"

definition score_links_for_query :: "link list \<Rightarrow> string \<Rightarrow> (link \<times> nat) list" where
  "score_links_for_query links query =
     sort_key (\<lambda>(l, score). - int score)
       (filter (\<lambda>(l, score). 0 < score) (map (\<lambda>l. (l, relevance_score query l)) links))"

text \<open>
  \<^verbatim>\<open>crawl_relevant_pages\<close>: \<open>crawl_targets\<close> are the URLs handed to
  \<^verbatim>\<open>fetch_page_content\<close>; \<open>fetch\<close> answers with the page or with nothing when the
  fetch fails.
\<close>

definition crawl_targets ::
  "(string \<Rightarrow> string \<Rightarrow> string) \<Rightarrow> (string \<Rightarrow> string) \<Rightarrow> nat \<Rightarrow> anchor list \<Rightarrow> string \<Rightarrow> string \<Rightarrow>
   string \<Rightarrow> string list" where
  "crawl_targets urljoin netloc max_pages anchors page base_url query =
     map (\<lambda>(l, score). l_url l)
       (take max_pages (score_links_for_query (extract_links urljoin netloc anchors page base_url) query))"

definition crawl_relevant_pages ::
  "(string \<Rightarrow> string \<Rightarrow> string) \<Rightarrow> (string \<Rightarrow> string) \<Rightarrow> (string \<Rightarrow> 'p option) \<Rightarrow> nat \<Rightarrow>
   anchor list \<Rightarrow> string \<Rightarrow> string \<Rightarrow> string \<Rightarrow> 'p list" where
  "crawl_relevant_pages urljoin netloc fetch max_pages anchors page base_url query =
     List.map_filter fetch (crawl_targets urljoin netloc max_pages anchors page base_url query)"

text \<open>
  Stand-ins for the two URL functions, used to close concrete examples.
  \<open>url_netloc\<close> follows \<^verbatim>\<open>urlsplit\<close>: after a scheme and \<^verbatim>\<open>://\<close> the network
  location runs to the next \<^verbatim>\<open>/\<close>, \<^verbatim>\<open>?\<close> or \<^verbatim>\<open>#\<close>; without them it is empty.
  \<open>urljoin_absolute\<close> is \<^verbatim>\<open>urljoin\<close> on a reference that carries its own scheme
  and network location, which is returned as it is.
\<close>

definition scheme_char :: "char \<Rightarrow> bool" where
  "scheme_char c \<longleftrightarrow> in_range (CHR ''a'') (CHR ''z'') c \<or> in_range (CHR ''A'') (CHR ''Z'') c \<or>
                     in_range (CHR ''0'') (CHR ''9'') c \<or> c \<in> set ''+-.''"

definition url_netloc :: "string \<Rightarrow> string" where
  "url_netloc u =
     (let s = takeWhile (\<lambda>c. c \<noteq> CHR '':'') u;
          rest = (if s \<noteq> [] \<and> length s < length u \<and> list_all scheme_char s
                     \<and> \<not> in_range (CHR ''0'') (CHR ''9'') (hd s) \<and> hd s \<notin> set ''+-.''
                  then drop (length s + 1) u else u)
      in if take 2 rest = ''//''
         then takeWhile (\<lambda>c. c \<notin> set ''/?#'') (drop 2 rest) else [])"

definition urljoin_absolute :: "string \<Rightarrow> string \<Rightarrow> string" where
  "urljoin_absolute base_url href = href"

section \<open>Stand-ins for the embedding service\<close>

text \<open>
  For concrete examples an embedding is a number: the length of the embedded
  text. Every pair of embeddings has the similarity 0.9.
\<close>

definition flat_similarity :: "nat \<Rightarrow> nat \<Rightarrow> real" where
  "flat_similarity a b = 0.9"

definition length_services :: "nat services" where
  "length_services = \<lparr>md5hex = digest_stub, enum_format = format_member_name,
                        similarity = flat_similarity,
                        embed_texts = (\<lambda>texts. Inr (map length texts)),
                        embed_query = (\<lambda>query. Inr (length query))\<rparr>"

text \<open>A section as the two embedding nodes hand it to the store, before and after an edit.\<close>

definition setup_source :: section_dict where
  "setup_source = \<lparr>sd_section_id = ''sec-setup'', sd_heading = ''Setup'',
                     sd_text = ''Install the tool with the package manager.'',
                     sd_summary_text = ''How to install.'', sd_embedding_type = ''source''\<rparr>"


definition setup_summary :: section_dict where
  "setup_summary = \<lparr>sd_section_id = ''sec-setup'', sd_heading = ''Setup'',
                      sd_text = ''How to install.'',
                      sd_summary_text = ''How to install.'', sd_embedding_type = ''summary''\<rparr>"

definition guide_url :: string where
  "guide_url = ''https://docs.example.com/guide''"

text \<open>
  An index that holds the section under both roles, and the state of a follow-up
  question on that page.
\<close>

definition both_roles_index :: "nat pinecone_index" where
  "both_roles_index =
     fst (upsert_sections digest_stub format_member_name guide_url [setup_summary] [15]
            (Member SUMMARY)
            (fst (upsert_sections digest_stub format_member_name guide_url [setup_source] [42]
                    (Member SOURCE) [])))"

definition followup_state :: agent_state where
  "followup_state =
     (create_initial_state guide_url ''# Setup'' ''Guide'')\<lparr>user_query := Some ''install''\<rparr>"

text \<open>A Markdown page with a link to another host, and the page that links to it.\<close>

definition foreign_link_page :: string where
  "foreign_link_page = ''See the [setup guide](https://evil.example.net/setup) first.''"

definition start_url :: string where
  "start_url = ''https://docs.example.com/start''"

section \<open>Stand-in for the score format\<close>

text \<open>
  The two-decimal format of a score that is not negative and not a rounding tie:
  the nearest number of hundredths, written with two decimals.
\<close>

definition two_decimals :: "real \<Rightarrow> string" where
  "two_decimals x =
     (let n = nat \<lfloor>x * 100 + 1 / 2\<rfloor>
      in str_of_nat (n div 100) @ ''.'' @ [digit_char (n div 10 mod 10), digit_char (n mod 10)])"




section \<open>Stand-ins for the generative service\<close>

text \<open>
  Three services for concrete examples: one that fails every request, one that
  answers every request with its prompt, and one that fails exactly the request
  issued after \<open>n\<close> earlier ones and answers the others.
\<close>

definition failing_service :: llm where
  "failing_service calls rq = Inl (Failure ''unavailable'')"

definition echo_service :: llm where
  "echo_service calls rq = Inr (rq_prompt rq)"

definition service_failing_at :: "nat \<Rightarrow> llm" where
  "service_failing_at n calls rq =
     (if length calls = n then Inl (Failure ''unavailable'') else Inr ''- a fact'')"


section \<open>Example inputs\<close>

text \<open>
  A page with a three-sentence section and a one-sentence section, and settings
  under which the first is large and splits into three chunks.
\<close>

definition small_settings :: settings where
  "small_settings = default_settings\<lparr>section_small_threshold := 6, chunk_max_tokens := 4\<rparr>"

definition example_page :: string where
  "example_page =
     ''# Setup'' @ [nl] @ ''Install the tool. Run the init command. Check the result now.'' @ [nl]
     @ ''# Notes'' @ [nl] @ ''Short closing words here ok.'' @ [nl]"

definition example_state :: agent_state where
  "example_state = extract_sections_node digest_stub small_settings
      (create_initial_state ''https://docs.example.com/start'' example_page ''Start'')"

definition example_section :: section_data where
  "example_section = sections example_state ! 0"

definition example_chunks :: "chunk_data list" where
  "example_chunks = split_section_into_chunks small_settings example_section"

text \<open>
  A section whose text has a line feed inside a sentence, an empty piece between
  two separators and a piece with a leading space.
\<close>

definition ragged_section :: section_data where
  "ragged_section =
     example_section\<lparr>raw_text := ''Alpha one. . Beta two'' @ [nl] @ ''gamma.  Delta''\<rparr>"

definition empty_page_state :: agent_state where
  "empty_page_state = extract_sections_node digest_stub default_settings
      (create_initial_state ''https://docs.example.com/empty'' [] ''Empty'')"

definition one_summary_state :: agent_state where
  "one_summary_state =
     (create_initial_state ''https://docs.example.com/one'' ''Only text.'' ''One'')
       \<lparr>section_summaries := [(''s1'', ''The only summary.'')]\<rparr>"

section \<open>Segmenter: degenerate inputs\<close>

text \<open>
  C8, as the code has it. A text without heading markers yields no section when
  it is empty or consists of whitespace only (or when the configured section
  limit is below 1), and otherwise exactly one section, with the heading
  Content and the text stripped of leading and trailing whitespace as its raw
  text. The empty text yields the empty list.
\<close>

theorem extract_sections_without_headings:
  assumes "extract_headings text = []"
  shows "extract_sections dg cfg text url =
           (if strip text = [] \<or> max_sections_per_page cfg < 1 then []
            else [content_section dg text url])
       \<and> es_heading (content_section dg text url) = ''Content''
       \<and> es_raw_text (content_section dg text url) = strip text
       \<and> extract_sections dg cfg [] url = []"
  using assms
  by (simp add: extract_sections_def extract_headings_def intro_sections_def py_take_def
                content_section_def strip_def)

theorem extract_sections_without_headings_witness:
  "extract_headings '' Plain text without any heading. '' = []
   \<and> extract_sections digest_stub default_settings '' Plain text without any heading. ''
         ''https://docs.example.com/plain''
       = [content_section digest_stub '' Plain text without any heading. ''
            ''https://docs.example.com/plain'']
   \<and> es_raw_text (content_section digest_stub '' Plain text without any heading. ''
         ''https://docs.example.com/plain'') = ''Plain text without any heading.''"
proof -
  have h: "extract_headings '' Plain text without any heading. '' = []"
    by code_simp
  have s: "strip '' Plain text without any heading. '' = ''Plain text without any heading.''"
    by (simp add: strip_def is_space_def)
  show ?thesis
    using h s extract_sections_without_headings [OF h, of digest_stub default_settings
                "''https://docs.example.com/plain''"]
    by (simp add: default_settings_def)
qed

text \<open>
  The claim as stated fails on a page that consists of one space, or of one
  no-break space: it is not empty and has no heading marker, and the segmenter
  returns no section. On a page with a leading space the raw text of the
  section is not the page.
\<close>

theorem whitespace_page_counterexample:
  "'' '' \<noteq> [] \<and> extract_headings '' '' = []
   \<and> extract_sections digest_stub default_settings '' '' ''https://docs.example.com/blank'' = []
   \<and> extract_headings [CHR 0xA0] = []
   \<and> extract_sections digest_stub default_settings [CHR 0xA0]
         ''https://docs.example.com/blank'' = []
   \<and> map es_raw_text (extract_sections digest_stub default_settings '' Plain''
            ''https://docs.example.com/plain'') = [''Plain'']"
  by code_simp

section \<open>Page synthesis: a single summary\<close>

text \<open>
  C9. When the summary map has exactly one entry, page synthesis issues no
  request to the generative service (the list of issued requests is returned
  unchanged) and the page summary is that entry's summary, unchanged.
\<close>

theorem synthesize_single_entry_verbatim:
  assumes "length (section_summaries state) = 1"
  shows "fst (synthesize_page_node service calls state) = calls
       \<and> page_summary (snd (synthesize_page_node service calls state))
           = snd (hd (section_summaries state))"
  using assms by (auto simp: synthesize_page_node_def Let_def)

theorem synthesize_single_entry_verbatim_witness:
  "length (section_summaries one_summary_state) = 1
   \<and> fst (synthesize_page_node echo_service [] one_summary_state) = []
   \<and> page_summary (snd (synthesize_page_node echo_service [] one_summary_state))
       = ''The only summary.''"
  using synthesize_single_entry_verbatim [of one_summary_state echo_service "[]"]
  by (simp add: one_summary_state_def create_initial_state_def)

section \<open>The section loop\<close>

lemma generate_fst: "fst (generate service calls rq) = calls @ [rq]"
  by (simp add: generate_def)

lemma process_section_node_past_end:
  assumes "length (sections state) \<le> current_section_index state"
  shows "process_section_node cfg service calls state
           = (calls, state\<lparr>current_status := ''all sections processed''\<rparr>)"
  using assms by (simp add: process_section_node_def Let_def)

lemma map_section_id_update:
  "i < length xs \<Longrightarrow>
   map section_id (xs[i := (xs ! i)\<lparr>summary_text := a, is_summarized := b\<rparr>]) = map section_id xs"
  by (simp add: map_update list_update_same_conv)

lemma process_section_node_step:
  assumes "current_section_index state < length (sections state)"
  shows "current_section_index (snd (process_section_node cfg service calls state))
           = current_section_index state + 1
       \<and> map section_id (sections (snd (process_section_node cfg service calls state)))
           = map section_id (sections state)
       \<and> fst ` set (section_summaries (snd (process_section_node cfg service calls state)))
           = insert (section_id (sections state ! current_section_index state))
               (fst ` set (section_summaries state))"
  using assms
  by (auto simp: process_section_node_def Let_def map_section_id_update dom_update
           split: prod.splits sum.splits)

lemma process_loop_general:
  "current_section_index state \<le> length (sections state) \<Longrightarrow>
   max 1 (length (sections state) - current_section_index state) \<le> steps \<Longrightarrow>
   \<exists>calls' state'.
     process_loop steps cfg service calls state
       = Inr (max 1 (length (sections state) - current_section_index state), calls', state') \<and>
     current_section_index state' = length (sections state) \<and>
     map section_id (sections state') = map section_id (sections state) \<and>
     fst ` set (section_summaries state') =
       fst ` set (section_summaries state) \<union>
       section_id ` set (drop (current_section_index state) (sections state))"
proof (induction steps arbitrary: calls state)
  case 0
  then show ?case by simp
next
  case (Suc steps)
  obtain c1 s1 where step: "process_section_node cfg service calls state = (c1, s1)"
    by (cases "process_section_node cfg service calls state")
  show ?case
  proof (cases "current_section_index state < length (sections state)")
    case False
    with Suc.prems have eq: "current_section_index state = length (sections state)" by simp
    then have "process_section_node cfg service calls state
           = (calls, state\<lparr>current_status := ''all sections processed''\<rparr>)"
      by (simp add: process_section_node_past_end)
    with eq show ?thesis
      by (simp add: should_continue_processing_def)
  next
    case True
    from process_section_node_step [OF True, of cfg service calls] step
    have idx: "current_section_index s1 = current_section_index state + 1"
      and ids: "map section_id (sections s1) = map section_id (sections state)"
      and keys: "fst ` set (section_summaries s1)
           = insert (section_id (sections state ! current_section_index state))
               (fst ` set (section_summaries state))"
      by simp_all
    from ids have len: "length (sections s1) = length (sections state)"
      by (metis length_map)
    have dropeq: "section_id ` set (drop (current_section_index state) (sections state))
        = insert (section_id (sections state ! current_section_index state))
            (section_id ` set (drop (current_section_index state + 1) (sections s1)))"
    proof -
      have "drop (current_section_index state) (sections state)
            = sections state ! current_section_index state
                # drop (Suc (current_section_index state)) (sections state)"
        using True by (simp add: Cons_nth_drop_Suc)
      moreover have "section_id ` set (drop (Suc (current_section_index state)) (sections state))
            = section_id ` set (drop (Suc (current_section_index state)) (sections s1))"
        using ids by (metis drop_map set_map)
      ultimately show ?thesis by simp
    qed
    show ?thesis
    proof (cases "should_continue_processing s1 = ''continue''")
      case cont: True
      from cont have lt: "current_section_index s1 < length (sections s1)"
        by (simp add: should_continue_processing_def split: if_splits)
      have le: "current_section_index s1 \<le> length (sections s1)"
        using lt by simp
      have budget: "max 1 (length (sections s1) - current_section_index s1) \<le> steps"
        using Suc.prems(2) idx len lt by simp
      from Suc.IH [OF le budget, of c1]
      obtain c2 s2 where
        rec: "process_loop steps cfg service c1 s1
                = Inr (max 1 (length (sections s1) - current_section_index s1), c2, s2)"
        and ih: "current_section_index s2 = length (sections s1)"
        "map section_id (sections s2) = map section_id (sections s1)"
        "fst ` set (section_summaries s2) =
           fst ` set (section_summaries s1) \<union>
           section_id ` set (drop (current_section_index s1) (sections s1))"
        by blast
      have run: "process_loop (Suc steps) cfg service calls state
                = Inr (Suc (max 1 (length (sections s1) - current_section_index s1)), c2, s2)"
        using step cont rec by simp
      have count: "Suc (max 1 (length (sections s1) - current_section_index s1))
                = max 1 (length (sections state) - current_section_index state)"
        using idx len lt by simp
      have keys2: "fst ` set (section_summaries s2) =
         fst ` set (section_summaries state) \<union>
         section_id ` set (drop (current_section_index state) (sections state))"
        using ih(3) idx keys dropeq by auto
      show ?thesis
        using run count ih(1) ih(2) len ids keys2 by simp
    next
      case stop: False
      from stop have ge: "length (sections s1) \<le> current_section_index s1"
        by (simp add: should_continue_processing_def split: if_splits)
      with idx len True have last: "current_section_index state + 1 = length (sections state)"
        by simp
      have run: "process_loop (Suc steps) cfg service calls state = Inr (1, c1, s1)"
        using step stop by simp
      have count: "max 1 (length (sections state) - current_section_index state) = 1"
        using last by simp
      have cur: "current_section_index s1 = length (sections state)"
        using idx last by simp
      have keys2: "fst ` set (section_summaries s1) =
         fst ` set (section_summaries state) \<union>
         section_id ` set (drop (current_section_index state) (sections state))"
        using keys dropeq idx len ge by auto
      show ?thesis
        using run count cur ids keys2 by simp
    qed
  qed
qed

lemma process_loop_out_of_steps:
  "current_section_index state \<le> length (sections state) \<Longrightarrow>
   steps < length (sections state) - current_section_index state \<Longrightarrow>
   process_loop steps cfg service calls state = Inl GraphRecursionError"
proof (induction steps arbitrary: calls state)
  case 0
  then show ?case by simp
next
  case (Suc steps)
  obtain c1 s1 where step: "process_section_node cfg service calls state = (c1, s1)"
    by (cases "process_section_node cfg service calls state")
  from Suc.prems have lt: "current_section_index state < length (sections state)"
    by simp
  from process_section_node_step [OF lt, of cfg service calls] step
  have idx: "current_section_index s1 = current_section_index state + 1"
    and ids: "map section_id (sections s1) = map section_id (sections state)"
    by simp_all
  from ids have len: "length (sections s1) = length (sections state)"
    by (metis length_map)
  have cont: "should_continue_processing s1 = ''continue''"
    using Suc.prems(2) idx len by (simp add: should_continue_processing_def)
  have "process_loop steps cfg service c1 s1 = Inl GraphRecursionError"
    using Suc.IH [of s1 c1] Suc.prems idx len by simp
  with step cont show ?case by simp
qed

lemma default_limit_thirty_sections:
  assumes "current_section_index state = 0" and "length (sections state) = 30"
  shows "process_loop (default_recursion_limit - steps_before_loop) cfg service calls state
           = Inl GraphRecursionError"
  using assms
  by (intro process_loop_out_of_steps)
     (simp_all add: default_recursion_limit_def steps_before_loop_def)


text \<open>
  C10, as the code has it. An invocation of the step with the cursor below the
  number of sections moves the cursor forward by exactly one, whether the
  section is summarized or gets the placeholder. Started with the cursor at 0
  on a state with \<open>n\<close> sections, and with at least \<open>max 1 n\<close> steps of the run
  left, the loop invokes the step \<open>max 1 n\<close> times (the graph enters the step
  once even when there is no section), the continue-condition then routes to
  embedding with the cursor at \<open>n\<close>, and the summary map has an entry for the
  identifier of every section.
\<close>

theorem section_loop_progress:
  assumes "current_section_index state = 0"
    and "max 1 (length (sections state)) \<le> steps"
  shows "(\<exists>calls' state'.
            process_loop steps cfg service calls state
              = Inr (max 1 (length (sections state)), calls', state')
          \<and> should_continue_processing state' = ''embed''
          \<and> current_section_index state' = length (sections state)
          \<and> map section_id (sections state') = map section_id (sections state)
          \<and> section_id ` set (sections state) \<subseteq> fst ` set (section_summaries state'))
       \<and> (current_section_index st < length (sections st) \<longrightarrow>
            current_section_index (snd (process_section_node cfg service c st))
              = current_section_index st + 1)"
proof -
  from process_loop_general [of state steps cfg service calls] assms
  obtain calls' state' where
    run: "process_loop steps cfg service calls state
            = Inr (max 1 (length (sections state)), calls', state')"
    and g: "current_section_index state' = length (sections state)"
      "map section_id (sections state') = map section_id (sections state)"
      "fst ` set (section_summaries state') =
         fst ` set (section_summaries state) \<union> section_id ` set (sections state)"
    by auto
  from g(2) have "length (sections state') = length (sections state)"
    by (metis length_map)
  with g(1) have emb: "should_continue_processing state' = ''embed''"
    by (simp add: should_continue_processing_def)
  have sub: "section_id ` set (sections state) \<subseteq> fst ` set (section_summaries state')"
    using g(3) by simp
  have first: "\<exists>calls' state'.
            process_loop steps cfg service calls state
              = Inr (max 1 (length (sections state)), calls', state')
          \<and> should_continue_processing state' = ''embed''
          \<and> current_section_index state' = length (sections state)
          \<and> map section_id (sections state') = map section_id (sections state)
          \<and> section_id ` set (sections state) \<subseteq> fst ` set (section_summaries state')"
    using run emb g(1) g(2) sub by blast
  show ?thesis
    using first process_section_node_step [of st cfg service c] by simp
qed

theorem section_loop_progress_witness:
  "current_section_index example_state = 0
   \<and> max 1 (length (sections example_state)) \<le> (2::nat)
   \<and> (\<exists>calls' state'.
         process_loop 2 small_settings (service_failing_at 1) [] example_state
           = Inr (2, calls', state')
       \<and> should_continue_processing state' = ''embed''
       \<and> current_section_index state' = 2
       \<and> map fst (section_summaries state') = map section_id (sections example_state))
   \<and> process_loop 1 small_settings (service_failing_at 1) [] example_state
         = Inl GraphRecursionError
   \<and> current_section_index example_state < length (sections example_state)
   \<and> current_section_index
         (snd (process_section_node small_settings (service_failing_at 1) [] example_state)) = 1"
proof -
  have a: "current_section_index example_state = 0"
    by (simp add: example_state_def extract_sections_node_def Let_def)
  have b: "length (sections example_state) = 2"
    by code_simp
  have c: "process_loop 1 small_settings (service_failing_at 1) [] example_state
         = Inl GraphRecursionError"
    using process_loop_out_of_steps [of example_state 1] a b by simp
  have d: "map fst (section_summaries
             (snd (snd (projr (process_loop 2 small_settings (service_failing_at 1) []
                                 example_state)))))
           = map section_id (sections example_state)"
    by code_simp
  from section_loop_progress [OF a, of 2 small_settings "service_failing_at 1" "[]"
                example_state "[]"] b
  obtain calls' state' where
    run: "process_loop 2 small_settings (service_failing_at 1) [] example_state
           = Inr (2, calls', state')"
    and e: "should_continue_processing state' = ''embed''"
       "current_section_index state' = 2"
    and f: "current_section_index
         (snd (process_section_node small_settings (service_failing_at 1) [] example_state)) = 1"
    using a by auto
  from d run have "map fst (section_summaries state') = map section_id (sections example_state)"
    by simp
  with run e f a b c show ?thesis
    by simp
qed

text \<open>
  The claim as stated fails on a page without sections: the step is invoked once,
  not zero times, and that invocation leaves the cursor where it is.
\<close>

theorem no_sections_loop_counterexample:
  "length (sections empty_page_state) = 0
   \<and> process_loop (default_recursion_limit - steps_before_loop) default_settings
         failing_service [] empty_page_state
       = Inr (1, [], empty_page_state\<lparr>current_status := ''all sections processed''\<rparr>)
   \<and> current_section_index
         (snd (process_section_node default_settings failing_service [] empty_page_state))
       = current_section_index empty_page_state"
proof -
  have a: "sections empty_page_state = []"
    by code_simp
  have b: "process_section_node default_settings failing_service [] empty_page_state
             = ([], empty_page_state\<lparr>current_status := ''all sections processed''\<rparr>)"
    using a by (simp add: process_section_node_past_end)
  have c: "default_recursion_limit - steps_before_loop = Suc 22"
    by (simp add: default_recursion_limit_def steps_before_loop_def)
  have d: "process_loop (Suc 22) default_settings failing_service [] empty_page_state
             = Inr (1, [], empty_page_state\<lparr>current_status := ''all sections processed''\<rparr>)"
    by (subst process_loop.simps) (simp add: a b should_continue_processing_def)
  show ?thesis
    unfolding c using a b d by simp
qed

section \<open>Adaptive branching\<close>

lemma extract_facts_chunk_failure:
  "extract_facts service calls section pre acc = (calls1, Inr facts1) \<Longrightarrow>
   service calls1 (fact_request section c) = Inl e \<Longrightarrow>
   extract_facts service calls section (pre @ c # post) acc
     = (calls1 @ [fact_request section c], Inl e)"
proof (induction pre arbitrary: calls acc)
  case Nil
  then show ?case by (simp add: generate_def)
next
  case (Cons p pre)
  then show ?case
    by (cases "service calls (fact_request section p)") (simp_all add: generate_def)
qed










section \<open>Failure of a generative call\<close>

lemma process_large_section_chunk_failure:
  assumes "split_section_into_chunks cfg sec = pre @ c # post"
    and "extract_facts service calls sec pre [] = (calls1, Inr facts1)"
    and "service calls1 (fact_request sec c) = Inl e"
  shows "process_large_section cfg service calls sec pt = (calls1 @ [fact_request sec c], Inl e)"
  using extract_facts_chunk_failure [OF assms(2,3), of post] assms(1)
  by (simp add: process_large_section_def)

text \<open>
  C4, as the code has it. The loop over the chunks has no handler of its own:
  when the fact-extraction request of one chunk fails after the earlier ones
  succeeded, no further request is issued for the section, and the step records
  the placeholder that names the heading as the section's summary, not a
  summary of the fact blocks obtained so far. In every case a failure of the
  section's strategy (the direct summary, a fact extraction or the summary from
  facts) gives the placeholder and moves the cursor forward by one, so the loop
  goes on with the next section.
\<close>

theorem section_failure_contained:
  assumes "current_section_index state < length (sections state)"
  shows "(is_large (sections state ! current_section_index state)
          \<and> split_section_into_chunks cfg (sections state ! current_section_index state)
              = pre @ c # post
          \<and> extract_facts service calls (sections state ! current_section_index state) pre []
              = (calls1, Inr facts1)
          \<and> service calls1 (fact_request (sections state ! current_section_index state) c) = Inl e
          \<longrightarrow> process_section_node cfg service calls state
              = (calls1 @ [fact_request (sections state ! current_section_index state) c],
                 state\<lparr>section_summaries :=
                          AList.update (section_id (sections state ! current_section_index state))
                            (error_placeholder (sections state ! current_section_index state))
                            (section_summaries state),
                       current_section_index := current_section_index state + 1,
                       current_status := ''error on section ''
                          @ str_of_nat (current_section_index state + 1)\<rparr>))
       \<and> (snd (if is_large (sections state ! current_section_index state)
                then process_large_section cfg service calls
                       (sections state ! current_section_index state)
                       (page_type_value (page_type state))
                else process_small_section service calls
                       (sections state ! current_section_index state)
                       (page_type_value (page_type state))) = Inl e
          \<longrightarrow> snd (process_section_node cfg service calls state)
              = state\<lparr>section_summaries :=
                         AList.update (section_id (sections state ! current_section_index state))
                           (error_placeholder (sections state ! current_section_index state))
                           (section_summaries state),
                      current_section_index := current_section_index state + 1,
                      current_status := ''error on section ''
                         @ str_of_nat (current_section_index state + 1)\<rparr>)"
proof (intro conjI impI)
  assume h: "is_large (sections state ! current_section_index state)
          \<and> split_section_into_chunks cfg (sections state ! current_section_index state)
              = pre @ c # post
          \<and> extract_facts service calls (sections state ! current_section_index state) pre []
              = (calls1, Inr facts1)
          \<and> service calls1 (fact_request (sections state ! current_section_index state) c) = Inl e"
  then have "process_large_section cfg service calls (sections state ! current_section_index state)
               (page_type_value (page_type state))
             = (calls1 @ [fact_request (sections state ! current_section_index state) c], Inl e)"
    by (intro process_large_section_chunk_failure) auto
  with h assms show "process_section_node cfg service calls state
              = (calls1 @ [fact_request (sections state ! current_section_index state) c],
                 state\<lparr>section_summaries :=
                          AList.update (section_id (sections state ! current_section_index state))
                            (error_placeholder (sections state ! current_section_index state))
                            (section_summaries state),
                       current_section_index := current_section_index state + 1,
                       current_status := ''error on section ''
                          @ str_of_nat (current_section_index state + 1)\<rparr>)"
    by (simp add: process_section_node_def Let_def)
next
  assume "snd (if is_large (sections state ! current_section_index state)
                then process_large_section cfg service calls
                       (sections state ! current_section_index state)
                       (page_type_value (page_type state))
                else process_small_section service calls
                       (sections state ! current_section_index state)
                       (page_type_value (page_type state))) = Inl e"
  with assms show "snd (process_section_node cfg service calls state)
              = state\<lparr>section_summaries :=
                         AList.update (section_id (sections state ! current_section_index state))
                           (error_placeholder (sections state ! current_section_index state))
                           (section_summaries state),
                      current_section_index := current_section_index state + 1,
                      current_status := ''error on section ''
                         @ str_of_nat (current_section_index state + 1)\<rparr>"
    by (auto simp: process_section_node_def Let_def split: prod.splits sum.splits if_splits)
qed

theorem section_failure_contained_witness:
  "current_section_index example_state < length (sections example_state)
   \<and> is_large example_section
   \<and> example_chunks = [example_chunks ! 0] @ example_chunks ! 1 # [example_chunks ! 2]
   \<and> extract_facts (service_failing_at 1) [] example_section [example_chunks ! 0] []
       = ([fact_request example_section (example_chunks ! 0)], Inr [''- a fact''])
   \<and> service_failing_at 1 [fact_request example_section (example_chunks ! 0)]
         (fact_request example_section (example_chunks ! 1)) = Inl (Failure ''unavailable'')
   \<and> fst (process_section_node small_settings (service_failing_at 1) [] example_state)
       = [fact_request example_section (example_chunks ! 0),
          fact_request example_section (example_chunks ! 1)]
   \<and> section_summaries (snd (process_section_node small_settings (service_failing_at 1) []
                                example_state))
       = [(section_id example_section, error_placeholder example_section)]
   \<and> current_section_index (snd (process_section_node small_settings (service_failing_at 1) []
                                     example_state)) = 1"
proof -
  have a: "current_section_index example_state < length (sections example_state)"
    by code_simp
  have i: "current_section_index example_state = 0" "section_summaries example_state = []"
    by (simp_all add: example_state_def extract_sections_node_def Let_def create_initial_state_def)
  have sec: "sections example_state ! current_section_index example_state = example_section"
    by (simp add: i example_section_def)
  have l: "is_large example_section"
    by code_simp
  have "length example_chunks = 3"
    by code_simp
  then have ch: "example_chunks = [example_chunks ! 0] @ example_chunks ! 1 # [example_chunks ! 2]"
    by (auto simp: list_eq_iff_nth_eq less_Suc_eq numeral_3_eq_3 numeral_2_eq_2)
  have ef: "extract_facts (service_failing_at 1) [] example_section [example_chunks ! 0] []
       = ([fact_request example_section (example_chunks ! 0)], Inr [''- a fact''])"
    by (simp add: generate_def service_failing_at_def)
  have fl: "service_failing_at 1 [fact_request example_section (example_chunks ! 0)]
         (fact_request example_section (example_chunks ! 1)) = Inl (Failure ''unavailable'')"
    by (simp add: service_failing_at_def)
  have sp: "split_section_into_chunks small_settings
              (sections example_state ! current_section_index example_state)
            = [example_chunks ! 0] @ example_chunks ! 1 # [example_chunks ! 2]"
    using ch by (simp add: sec example_chunks_def [symmetric])
  note T = section_failure_contained [OF a, of small_settings "[example_chunks ! 0]"
      "example_chunks ! 1" "[example_chunks ! 2]" "service_failing_at 1" "[]"
      "[fact_request example_section (example_chunks ! 0)]" "[''- a fact'']"
      "Failure ''unavailable''"]
  from T [THEN conjunct1] l sp ef fl
  have R: "process_section_node small_settings (service_failing_at 1) [] example_state
        = ([fact_request example_section (example_chunks ! 0)]
             @ [fact_request example_section (example_chunks ! 1)],
           example_state\<lparr>section_summaries :=
                AList.update (section_id example_section) (error_placeholder example_section)
                  (section_summaries example_state),
              current_section_index := current_section_index example_state + 1,
              current_status := ''error on section ''
                 @ str_of_nat (current_section_index example_state + 1)\<rparr>)"
    by (simp add: sec)
  show ?thesis
    unfolding R using a l ch ef fl by (simp add: i)
qed

text \<open>
  The claim as stated fails on the example page: the first section splits into
  three chunks, the service fails the second fact-extraction request only, and
  the step issues the first two fact requests and no summary request; the
  section's entry is the placeholder and the section has no summary text.
\<close>

theorem chunk_failure_counterexample:
  "length example_chunks = 3
   \<and> is_large example_section
   \<and> map rq_system (fst (process_section_node small_settings (service_failing_at 1) []
                            example_state)) = [FactExtraction, FactExtraction]
   \<and> section_summaries (snd (process_section_node small_settings (service_failing_at 1) []
                                example_state))
       = [(section_id example_section, ''[Error summarizing: Setup]'')]
   \<and> map summary_text (sections (snd (process_section_node small_settings (service_failing_at 1) []
                                         example_state))) = [None, None]"
  by code_simp

section \<open>Chunk splitter: reconstruction\<close>

lemma join_append:
  "xs \<noteq> [] \<Longrightarrow> ys \<noteq> [] \<Longrightarrow> join sep (xs @ ys) = join sep xs @ sep @ join sep ys"
proof (induction sep xs rule: join.induct)
  case (1 sep)
  then show ?case by simp
next
  case (2 sep x)
  then show ?case by (cases ys) simp_all
next
  case (3 sep x y ys')
  then show ?case by simp
qed

lemma join_render_groups:
  "[] \<notin> set gs \<Longrightarrow> gs \<noteq> [] \<Longrightarrow>
   join '' '' (map render_group gs) = join ''. '' (concat gs) @ ''.''"
proof (induction gs)
  case Nil
  then show ?case by simp
next
  case (Cons g gs)
  show ?case
  proof (cases gs)
    case Nil
    then show ?thesis by (simp add: render_group_def)
  next
    case (Cons g' gs')
    with Cons.prems have ne: "g \<noteq> []" "concat gs \<noteq> []" "[] \<notin> set gs" "gs \<noteq> []"
      by auto
    from Cons.IH [OF ne(3,4)]
    have ih: "join '' '' (map render_group gs) = join ''. '' (concat gs) @ ''.''" .
    have "join '' '' (map render_group (g # gs))
            = render_group g @ '' '' @ join '' '' (map render_group gs)"
      using Cons by simp
    also have "\<dots> = join ''. '' g @ ''. '' @ join ''. '' (concat gs) @ ''.''"
      by (simp add: ih render_group_def)
    also have "\<dots> = join ''. '' (concat (g # gs)) @ ''.''"
      using ne by (simp add: join_append)
    finally show ?thesis .
  qed
qed

lemma chunk_loop_groups:
  assumes "chunk_loop mx sec raws fin cur toks = (fin', cur', toks')"
    and "map c_text fin = map render_group gs"
    and "map c_index fin = [0..<length gs]"
    and "[] \<notin> set gs"
  shows "\<exists>gs'. map c_text fin' = map render_group gs' \<and> map c_index fin' = [0..<length gs']
           \<and> [] \<notin> set gs'
           \<and> concat gs' @ cur' = concat gs @ cur @ filter (\<lambda>s. s \<noteq> []) (map strip raws)"
  using assms
proof (induction raws arbitrary: fin cur toks gs)
  case Nil
  then show ?case by auto
next
  case (Cons raw rest)
  show ?case
  proof (cases "strip raw = []")
    case True
    with Cons.prems(1) have "chunk_loop mx sec rest fin cur toks = (fin', cur', toks')"
      by (simp add: Let_def)
    from Cons.IH [OF this Cons.prems(2,3,4)] True show ?thesis by simp
  next
    case False
    show ?thesis
    proof (cases "mx < toks + sentence_tokens (strip raw) \<and> cur \<noteq> []")
      case True
      with False Cons.prems(1)
      have run: "chunk_loop mx sec rest (fin @ [mk_chunk sec (length fin) cur toks])
                   [strip raw] (sentence_tokens (strip raw)) = (fin', cur', toks')"
        by (simp add: Let_def)
      have len: "length fin = length gs"
        using Cons.prems(2) by (metis length_map)
      have t: "map c_text (fin @ [mk_chunk sec (length fin) cur toks])
                 = map render_group (gs @ [cur])"
        using Cons.prems(2) by (simp add: mk_chunk_def render_group_def)
      have i: "map c_index (fin @ [mk_chunk sec (length fin) cur toks])
                 = [0..<length (gs @ [cur])]"
        using Cons.prems(3) len by (simp add: mk_chunk_def)
      have n: "[] \<notin> set (gs @ [cur])"
        using Cons.prems(4) True by auto
      from Cons.IH [OF run t i n] False show ?thesis by simp
    next
      case no: False
      with False Cons.prems(1)
      have run: "chunk_loop mx sec rest fin (cur @ [strip raw])
                   (toks + sentence_tokens (strip raw)) = (fin', cur', toks')"
        by (auto simp: Let_def)
      from Cons.IH [OF run Cons.prems(2,3,4)] False show ?thesis by simp
    qed
  qed
qed

lemma split_dot_space_nonempty: "split_dot_space cur s \<noteq> []"
  by (induction cur s rule: split_dot_space.induct) simp_all

lemma join_cons_nonempty: "xs \<noteq> [] \<Longrightarrow> join sep (x # xs) = x @ sep @ join sep xs"
  by (cases xs) simp_all

lemma join_split_dot_space: "join ''. '' (split_dot_space cur s) = cur @ s"
proof (induction cur s rule: split_dot_space.induct)
  case (1 cur)
  then show ?case by simp
next
  case (2 cur c)
  then show ?case by simp
next
  case (3 cur c d cs)
  then show ?case
    by (simp add: join_cons_nonempty split_dot_space_nonempty)
qed

lemma has_dot_space_append:
  "has_dot_space (xs @ ys) \<longleftrightarrow>
     has_dot_space xs \<or> has_dot_space ys
     \<or> (xs \<noteq> [] \<and> last xs = CHR ''.'' \<and> ys \<noteq> [] \<and> hd ys = CHR '' '')"
proof (induction xs rule: has_dot_space.induct)
  case 1
  then show ?case by (cases ys) simp_all
next
  case (2 c)
  then show ?case
    by (cases ys) auto
next
  case (3 c d cs)
  then show ?case by auto
qed

lemma split_dot_space_pieces:
  "\<not> has_dot_space (cur @ take 1 s) \<Longrightarrow> \<forall>p \<in> set (split_dot_space cur s). \<not> has_dot_space p"
proof (induction cur s rule: split_dot_space.induct)
  case (1 cur)
  then show ?case by simp
next
  case (2 cur c)
  then show ?case by simp
next
  case (3 cur c d cs)
  show ?case
  proof (cases "c = CHR ''.'' \<and> d = CHR '' ''")
    case True
    from "3.prems" have "\<not> has_dot_space cur"
      by (simp add: has_dot_space_append)
    moreover have "\<not> has_dot_space ([] @ take 1 cs)"
      by (cases cs) simp_all
    with "3.IH"(1) True have "\<forall>p \<in> set (split_dot_space [] cs). \<not> has_dot_space p"
      by simp
    ultimately show ?thesis using True by simp
  next
    case False
    from "3.prems" have "\<not> has_dot_space (cur @ [c])" by simp
    with False have "\<not> has_dot_space ((cur @ [c]) @ take 1 (d # cs))"
      by (auto simp: has_dot_space_append)
    with "3.IH"(2) False have "\<forall>p \<in> set (split_dot_space (cur @ [c]) (d # cs)). \<not> has_dot_space p"
      by blast
    with False show ?thesis by auto
  qed
qed

text \<open>
  C5. The splitter turns the line feeds of the section text into spaces and
  cuts the result at every occurrence of \<^verbatim>\<open>. \<close>: the pieces joined by \<^verbatim>\<open>. \<close> are
  that text again, and the separator occurs in no piece. The sentence sequence
  of the section is the pieces in order, stripped, the empty ones left out.

  The chunks of the section partition this sequence: there are non-empty groups
  of consecutive sentences whose concatenation, in order, is the sentence
  sequence, the text of the chunk with index \<open>i\<close> is the \<open>i\<close>-th group joined
  by \<^verbatim>\<open>. \<close> with a closing period, and the indices count from 0 in order. So
  the chunk texts put one after another, a space between them, are the
  sentences joined by \<^verbatim>\<open>. \<close> with a closing period: no sentence is left out
  and none occurs twice.
\<close>

theorem chunks_reconstruct_sentences:
  "join ''. '' (raw_sentences (raw_text section))
      = map (\<lambda>c. if c = nl then CHR '' '' else c) (raw_text section)
   \<and> (\<forall>p \<in> set (raw_sentences (raw_text section)). \<not> has_dot_space p)
   \<and> section_sentences (raw_text section)
      = filter (\<lambda>s. s \<noteq> []) (map strip (raw_sentences (raw_text section)))
   \<and> (\<exists>groups. concat groups = section_sentences (raw_text section)
      \<and> [] \<notin> set groups
      \<and> map c_text (split_section_into_chunks cfg section) = map render_group groups
      \<and> map c_index (split_section_into_chunks cfg section) = [0..<length groups]
      \<and> join '' '' (map c_text (split_section_into_chunks cfg section))
          = (if section_sentences (raw_text section) = [] then []
             else join ''. '' (section_sentences (raw_text section)) @ ''.''))"
proof -
  obtain fin cur toks where run:
    "chunk_loop (chunk_max_tokens cfg) section (raw_sentences (raw_text section)) [] [] 0
       = (fin, cur, toks)"
    by (cases "chunk_loop (chunk_max_tokens cfg) section (raw_sentences (raw_text section)) [] [] 0")
      auto
  from chunk_loop_groups [OF run, of "[]"] obtain gs where gs:
    "map c_text fin = map render_group gs" "map c_index fin = [0..<length gs]" "[] \<notin> set gs"
    "concat gs @ cur = section_sentences (raw_text section)"
    by (auto simp: section_sentences_def)
  have len: "length fin = length gs"
    using gs(1) by (metis length_map)
  define groups where "groups = (if cur \<noteq> [] then gs @ [cur] else gs)"
  have c: "concat groups = section_sentences (raw_text section)"
    using gs(4) by (auto simp: groups_def)
  have n: "[] \<notin> set groups"
    using gs(3) by (simp add: groups_def)
  have t: "map c_text (split_section_into_chunks cfg section) = map render_group groups"
    using gs(1) run by (simp add: split_section_into_chunks_def groups_def mk_chunk_def render_group_def)
  have i: "map c_index (split_section_into_chunks cfg section) = [0..<length groups]"
    using gs(2) run len by (simp add: split_section_into_chunks_def groups_def mk_chunk_def)
  have j: "join '' '' (map c_text (split_section_into_chunks cfg section))
          = (if section_sentences (raw_text section) = [] then []
             else join ''. '' (section_sentences (raw_text section)) @ ''.'')"
  proof (cases "groups = []")
    case True
    with c t show ?thesis by simp
  next
    case False
    with n c have "section_sentences (raw_text section) \<noteq> []"
      by (cases groups) auto
    with join_render_groups [OF n False] c t show ?thesis by simp
  qed
  have g: "\<exists>groups. concat groups = section_sentences (raw_text section)
      \<and> [] \<notin> set groups
      \<and> map c_text (split_section_into_chunks cfg section) = map render_group groups
      \<and> map c_index (split_section_into_chunks cfg section) = [0..<length groups]
      \<and> join '' '' (map c_text (split_section_into_chunks cfg section))
          = (if section_sentences (raw_text section) = [] then []
             else join ''. '' (section_sentences (raw_text section)) @ ''.'')"
    using c n t i j by blast
  have r: "join ''. '' (raw_sentences (raw_text section))
      = map (\<lambda>c. if c = nl then CHR '' '' else c) (raw_text section)"
    by (simp add: raw_sentences_def join_split_dot_space)
  have "\<not> has_dot_space ([] @ take 1 (map (\<lambda>c. if c = nl then CHR '' '' else c) (raw_text section)))"
    by (cases "raw_text section") simp_all
  then have p: "\<forall>p \<in> set (raw_sentences (raw_text section)). \<not> has_dot_space p"
    unfolding raw_sentences_def by (rule split_dot_space_pieces)
  have s: "section_sentences (raw_text section)
      = filter (\<lambda>s. s \<noteq> []) (map strip (raw_sentences (raw_text section)))"
    by (simp add: section_sentences_def)
  from r p s g show ?thesis by blast
qed

theorem chunks_reconstruct_sentences_witness:
  "raw_text ragged_section = ''Alpha one. . Beta two'' @ [nl] @ ''gamma.  Delta''
   \<and> raw_sentences (raw_text ragged_section)
       = [''Alpha one'', [], ''Beta two gamma'', '' Delta'']
   \<and> map has_dot_space (raw_sentences (raw_text ragged_section)) = [False, False, False, False]
   \<and> section_sentences (raw_text ragged_section) = [''Alpha one'', ''Beta two gamma'', ''Delta'']
   \<and> map c_text (split_section_into_chunks small_settings ragged_section)
       = [''Alpha one.'', ''Beta two gamma. Delta.'']
   \<and> map c_index (split_section_into_chunks small_settings ragged_section) = [0, 1]
   \<and> (\<exists>groups. concat groups = [''Alpha one'', ''Beta two gamma'', ''Delta'']
        \<and> map render_group groups = [''Alpha one.'', ''Beta two gamma. Delta.''])
   \<and> join '' '' (map c_text (split_section_into_chunks small_settings ragged_section))
       = ''Alpha one. Beta two gamma. Delta.''
   \<and> section_sentences (raw_text example_section)
       = [''Install the tool'', ''Run the init command'', ''Check the result now.'']
   \<and> map c_text (split_section_into_chunks small_settings example_section)
       = [''Install the tool.'', ''Run the init command.'', ''Check the result now..'']"
proof -
  have a: "raw_text ragged_section = ''Alpha one. . Beta two'' @ [nl] @ ''gamma.  Delta''"
    by (simp add: ragged_section_def)
  have b: "raw_sentences (raw_text ragged_section)
       = [''Alpha one'', [], ''Beta two gamma'', '' Delta'']"
    by code_simp
  have c: "map has_dot_space (raw_sentences (raw_text ragged_section))
       = [False, False, False, False]"
    by code_simp
  have d: "section_sentences (raw_text ragged_section)
       = [''Alpha one'', ''Beta two gamma'', ''Delta'']"
    by code_simp
  have e: "map c_text (split_section_into_chunks small_settings ragged_section)
       = [''Alpha one.'', ''Beta two gamma. Delta.'']"
    by code_simp
  have f: "map c_index (split_section_into_chunks small_settings ragged_section) = [0, 1]"
    by code_simp
  have g: "section_sentences (raw_text example_section)
       = [''Install the tool'', ''Run the init command'', ''Check the result now.'']"
    by code_simp
  have h: "map c_text (split_section_into_chunks small_settings example_section)
       = [''Install the tool.'', ''Run the init command.'', ''Check the result now..'']"
    by code_simp
  from chunks_reconstruct_sentences [of ragged_section small_settings]
  obtain groups where gr: "concat groups = section_sentences (raw_text ragged_section)"
    "map c_text (split_section_into_chunks small_settings ragged_section)
       = map render_group groups"
    and j: "join '' '' (map c_text (split_section_into_chunks small_settings ragged_section))
          = (if section_sentences (raw_text ragged_section) = [] then []
             else join ''. '' (section_sentences (raw_text ragged_section)) @ ''.'')"
    by blast
  from gr d e have ex: "\<exists>groups. concat groups = [''Alpha one'', ''Beta two gamma'', ''Delta'']
        \<and> map render_group groups = [''Alpha one.'', ''Beta two gamma. Delta.'']"
    by auto
  from j d have k: "join '' '' (map c_text (split_section_into_chunks small_settings ragged_section))
       = ''Alpha one. Beta two gamma. Delta.''"
    by simp
  from a b c d e f ex k g h show ?thesis
    by blast
qed



section \<open>Grounding context within the budget\<close>










section \<open>Vector index: storing twice\<close>
















text \<open>
  The id depends on the role through its rendering. With the value format a
  member and its value give the same id; with the qualified-name format they
  are rendered differently.
\<close>

lemma vector_id_value_format:
  "generate_vector_id dg format_member_value url sid (Member e)
     = generate_vector_id dg format_member_value url sid (Plain (embedding_type_value e))"
  by (simp add: generate_vector_id_def format_member_value_def)

lemma role_format_member_name:
  "role_format format_member_name (Member e)
     \<noteq> role_format format_member_name (Plain (embedding_type_value e))"
  by (cases e) simp_all




section \<open>Same-host links and role isolation\<close>

text \<open>
  The links taken from HTML anchors are on the host of the base URL, whatever
  the URL functions are.
\<close>

lemma html_links_same_host:
  "(\<And>l. l \<in> set links \<Longrightarrow> netloc (l_url l) = netloc base_url) \<Longrightarrow>
   l \<in> set (html_links urljoin netloc base_url anchors links) \<Longrightarrow>
   netloc (l_url l) = netloc base_url"
proof (induction anchors arbitrary: links)
  case Nil
  then show ?case by simp
next
  case (Cons a anchors)
  show ?case
  proof (cases "a_href a = [] \<or> starts_with (a_href a) ''#''
                 \<or> starts_with (a_href a) ''javascript:'' \<or> starts_with (a_href a) ''mailto:''
                 \<or> starts_with (a_href a) ''tel:''
                 \<or> netloc (urljoin base_url (a_href a)) \<noteq> netloc base_url")
    case True
    with Cons.prems(2) have "l \<in> set (html_links urljoin netloc base_url anchors links)"
      by (auto simp: Let_def split: if_splits)
    with Cons.IH [OF Cons.prems(1)] show ?thesis by blast
  next
    case False
    define new where "new = \<lparr>l_url = urljoin base_url (a_href a), l_text = a_text a,
        l_context = (case a_parent_text a of None \<Rightarrow> [] | Some t \<Rightarrow> take 200 t)\<rparr>"
    from False Cons.prems(2)
    have in': "l \<in> set (html_links urljoin netloc base_url anchors (links @ [new]))"
      by (simp add: Let_def new_def)
    have "\<And>l. l \<in> set (links @ [new]) \<Longrightarrow> netloc (l_url l) = netloc base_url"
      using Cons.prems(1) False by (auto simp: new_def)
    from Cons.IH [OF this in'] show ?thesis .
  qed
qed

text \<open>
  A filtered search returns records of the requested role only, and so does
  \<^verbatim>\<open>retrieve_sections\<close>, which the follow-up node calls with the role source.
\<close>

lemma search_sections_role:
  "r \<in> set (search_sections dg sim idx url q et top_k t) \<Longrightarrow>
   r_embedding_type r = role_value et"
  by (auto simp: search_sections_def index_query_def match_result_def passes_filter_def
           dest!: in_set_takeD)

lemma retrieve_sections_role:
  "retrieve_sections sv cfg idx url query et top_k t = Inr rs \<Longrightarrow> r \<in> set rs \<Longrightarrow>
   r_embedding_type r = role_value et"
  by (auto simp: retrieve_sections_def split: sum.splits dest: search_sections_role)

text \<open>
  C6 asks that every extracted link, and so every URL the fallback crawl fetches,
  is on the host of the base document. The Markdown branch of
  \<^verbatim>\<open>extract_links\<close> compares hosts only for references that start with
  \<^verbatim>\<open>http://\<close>: on a page of \<^verbatim>\<open>docs.example.com\<close> with a Markdown link to
  \<^verbatim>\<open>https://evil.example.net/setup\<close> the link is extracted, and a query that
  shares a word with its text makes it a crawl target.
\<close>

theorem markdown_link_to_foreign_host:
  "extract_links urljoin_absolute url_netloc [] foreign_link_page start_url
     = [\<lparr>l_url = ''https://evil.example.net/setup'', l_text = ''setup guide'',
         l_context = foreign_link_page\<rparr>]
   \<and> url_netloc ''https://evil.example.net/setup'' = ''evil.example.net''
   \<and> url_netloc start_url = ''docs.example.com''
   \<and> crawl_targets urljoin_absolute url_netloc 3 [] foreign_link_page start_url ''setup guide''
       = [''https://evil.example.net/setup'']"
  by code_simp

text \<open>
  C1 asks that every retrieval for a follow-up answer searches the role source
  only. On an index that holds a section under both roles, the filtered
  retrieval of the follow-up node returns the source record alone, but the
  \<^verbatim>\<open>handle_followup_streaming\<close> that the module exports retrieves through
  the unfiltered legacy search: it gets the summary record as well and puts the
  summary text into the context of the request it issues.
\<close>

theorem legacy_followup_streaming_reads_summary:
  "map (\<lambda>p. md_embedding_type (v_metadata (snd p))) both_roles_index = [''source'', ''summary'']
   \<and> map (\<lambda>p. md_section_id (v_metadata (snd p))) both_roles_index = [''sec-setup'', ''sec-setup'']
   \<and> retrieve_sections length_services default_settings both_roles_index guide_url ''install''
         (Member SOURCE) None None
       = Inr [\<lparr>r_section_id = ''sec-setup'', r_score = 0.9,
                r_text = ''Install the tool with the package manager.'', r_heading = ''Setup'',
                r_summary_text = ''How to install.'', r_embedding_type = ''source''\<rparr>]
   \<and> retrieve_relevant_chunks length_services default_settings both_roles_index guide_url
         ''install'' None None
       = Inr [\<lparr>cr_chunk_id = generate_vector_id digest_stub format_member_name guide_url
                               ''sec-setup'' (Member SOURCE),
                cr_score = 0.9, cr_text = ''Install the tool with the package manager.'',
                cr_heading = ''Setup'', cr_chunk_index = 0, cr_section_id = ''sec-setup''\<rparr>,
              \<lparr>cr_chunk_id = generate_vector_id digest_stub format_member_name guide_url
                               ''sec-setup'' (Member SUMMARY),
                cr_score = 0.9, cr_text = ''How to install.'',
                cr_heading = ''Setup'', cr_chunk_index = 0, cr_section_id = ''sec-setup''\<rparr>]
   \<and> fst (handle_followup_streaming length_services default_settings two_decimals
              both_roles_index echo_service [] followup_state)
       = [followup_request followup_state ''install''
            (build_context_from_sections two_decimals
               [\<lparr>ci_heading = ''Setup'', ci_text = ''Install the tool with the package manager.'',
                  ci_score = 0.9\<rparr>,
                \<lparr>ci_heading = ''Setup'', ci_text = ''How to install.'', ci_score = 0.9\<rparr>] 2000)]"
  by code_simp

end
